theory Spec2Isabelle
  imports Main
begin

section \<open>Flat-session launcher: data model\<close>

text \<open>
  The development embeds the two versions of \<^verbatim>\<open>flatSessionLauncher.ts\<close> found in the
  repository: the named file \<^verbatim>\<open>src/flatSessionLauncher.ts\<close> (definitions carry the
  source's names) and the unnamed file \<^verbatim>\<open>part_000\<close> (the same names with the suffix
  \<open>_p0\<close>). Both run on one heap model.

  Objects that are shared and mutated (promises, \<^verbatim>\<open>VSDebugSession\<close> objects) live in a
  store and are referred to by address; an address is the index at which the object
  was allocated. Calls that leave the file (\<^verbatim>\<open>sessionManager.createNewSession\<close>,
  \<^verbatim>\<open>deferred.resolve\<close>, \<^verbatim>\<open>connection._send\<close>, \<^verbatim>\<open>dap.process\<close>,
  \<^verbatim>\<open>rootConnection.init\<close>) are recorded, in the order they happen, in the field
  \<open>calls\<close> of the world.

  An exception does not undo what the code did before it: a function that can throw
  returns \<open>Inr\<close> of the world it leaves when it returns, and \<open>Inl\<close> of the error together
  with the world it leaves when it throws.
\<close>

type_synonym addr = nat

datatype jsvalue =
    JNull
  | JBool bool
  | JNumber int
  | JString string
  | JObject "(string \<times> jsvalue) list"

text \<open>A configuration is a plain JavaScript object (\<^verbatim>\<open>config: any\<close>): a finite map from
  property names to values.\<close>

type_synonym config = "string \<rightharpoonup> jsvalue"

text \<open>\<^verbatim>\<open>target.id()\<close> and \<^verbatim>\<open>target.name()\<close> are the only members of a target the file
  reads.\<close>

record target =
  target_id :: string
  target_name :: string

text \<open>Modelled from the spec: \<^verbatim>\<open>ChildConnection\<close> (\<^verbatim>\<open>./dap/flatSessionConnection\<close> is
  not among the sources). A Child Connection View is built from a reference to the
  Root Multiplexed Connection and the session identifier it is scoped to; the logger
  and the telemetry reporter play no role here and are left out.\<close>

datatype connection =
  ChildConnection (parentConnection: addr) (connection_sessionId: "string option")

record arguments =
  config :: config

record message =
  seq :: int
  command :: string
  type :: string
  arguments :: arguments

text \<open>The closures handed to \<^verbatim>\<open>Promise.then\<close>, one constructor per closure of the
  source:
  \<^item> \<open>GetDap pid n\<close> is \<^verbatim>\<open>x => x.dap()\<close> of the name setter, chained with
    \<open>DapProcess pid n\<close>;
  \<^item> \<open>DapProcess pid n\<close> is
    \<^verbatim>\<open>dap => { dap.process({ systemProcessId: this.mockProcessId, name: newName }) }\<close>;
  \<^item> \<open>SendMessage m\<close> is \<^verbatim>\<open>conn => conn._send(m)\<close> of the launcher in \<^verbatim>\<open>part_000\<close>.\<close>

datatype callback =
    GetDap nat string
  | DapProcess nat string
  | SendMessage message

datatype promise =
    Pending "callback list"
  | Fulfilled connection

record VSDebugSession =
  session_id :: string
  session_name :: string
  childConnection :: addr
  session_mockProcessId :: nat

text \<open>Modelled from the spec: \<^verbatim>\<open>Session\<close> of \<^verbatim>\<open>./sessionManager\<close> (not among the
  sources): the registry's entry for a session, holding the session object and its
  connection. The connection is a \<^verbatim>\<open>DapConnection\<close> in \<^verbatim>\<open>flatSessionLauncher.ts\<close>
  (\<open>'c = connection\<close>) and a promise of one in \<^verbatim>\<open>part_000\<close> (\<open>'c = addr\<close>).\<close>

record 'c Session =
  debugSession :: addr
  connection :: 'c

text \<open>The errors of section 7 of the spec that the code of this file can meet:
  registering a session identifier that is already registered.\<close>

datatype error = DuplicateRegistration string

text \<open>The calls that leave the file, with their arguments. \<open>'s\<close> is the class of the
  connection strategy.\<close>

datatype 's call =
    CreateNewSession addr config 's
  | Resolve addr connection
  | Send connection message
  | Process connection nat string
  | Init addr

text \<open>A world is one \<^verbatim>\<open>VSSessionManager\<close> with the objects it reaches: its fields
  \<^verbatim>\<open>rootConnection\<close> (the identity of its \<^verbatim>\<open>MessageEmitterConnection\<close>) and
  \<^verbatim>\<open>mockProcessId\<close>, the registry of its session manager (\<open>sessions\<close>), the map from
  session identifiers to Child Connection Views of its root connection (\<open>children\<close>),
  the stores of session objects and of promises, the queue of promise jobs, and the
  record of calls.\<close>

record ('c, 's) world =
  rootConnection :: addr
  mockProcessId :: nat
  sessions :: "string \<rightharpoonup> 'c Session"
  children :: "string \<rightharpoonup> connection"
  debugSessions :: "VSDebugSession list"
  promises :: "promise list"
  jobs :: "(callback \<times> connection) list"
  calls :: "'s call list"

type_synonym ('c, 's) outcome = "error \<times> ('c, 's) world + ('c, 's) world"

text \<open>The world an execution leaves, whether it returned or threw.\<close>

definition the_world :: "'e \<times> 'w + 'w \<Rightarrow> 'w" where
  "the_world r = (case r of Inl (e, w) \<Rightarrow> w | Inr w \<Rightarrow> w)"

section \<open>The root connection and its views\<close>

text \<open>An absent and an empty session identifier are the same identifier: both denote
  the root session (sections 3 and 6 of the spec).\<close>

definition identifier_of :: "string option \<Rightarrow> string" where
  "identifier_of sessionId = (case sessionId of None \<Rightarrow> [] | Some s \<Rightarrow> s)"

text \<open>Modelled from the spec: the constructor of \<^verbatim>\<open>ChildConnection\<close>
  (\<^verbatim>\<open>./dap/flatSessionConnection\<close> is not among the sources). Construction itself registers
  the view with the Root Multiplexed Connection (section 4.2); registering an
  identifier that is already registered raises and leaves the first registration as
  it is (sections 4.1, 7 and 8).\<close>

definition new_ChildConnection ::
  "addr \<Rightarrow> string option \<Rightarrow> ('c, 's) world \<Rightarrow> error + connection \<times> ('c, 's) world" where
  "new_ChildConnection r sessionId w =
     (case children w (identifier_of sessionId) of
        Some view \<Rightarrow> Inl (DuplicateRegistration (identifier_of sessionId))
      | None \<Rightarrow>
          Inr (ChildConnection r sessionId,
               w\<lparr>children := (children w)(identifier_of sessionId \<mapsto> ChildConnection r sessionId)\<rparr>))"

section \<open>Promises and the job queue\<close>

text \<open>Modelled from the spec: \<^verbatim>\<open>getDeferred\<close> (\<^verbatim>\<open>./common/promiseUtil\<close> is not among the
  sources): a Deferred Connection Handle is a fresh promise that nobody has resolved
  yet; the handle is the promise's address.\<close>

definition getDeferred :: "('c, 's) world \<Rightarrow> addr \<times> ('c, 's) world" where
  "getDeferred w = (length (promises w), w\<lparr>promises := promises w @ [Pending []]\<rparr>)"

text \<open>\<^verbatim>\<open>deferred.resolve(c)\<close>: a pending promise is fulfilled and its reactions are queued
  in the order they were attached; resolving a settled promise changes nothing.\<close>

definition resolve :: "addr \<Rightarrow> connection \<Rightarrow> ('c, 's) world \<Rightarrow> ('c, 's) world" where
  "resolve p c w =
     (let w1 = w\<lparr>calls := calls w @ [Resolve p c]\<rparr> in
      if p < length (promises w) then
        (case promises w ! p of
           Pending cbs \<Rightarrow>
             w1\<lparr>promises := (promises w)[p := Fulfilled c],
                jobs := jobs w @ map (\<lambda>cb. (cb, c)) cbs\<rparr>
         | Fulfilled c' \<Rightarrow> w1)
      else w1)"

text \<open>\<^verbatim>\<open>promise.then(cb)\<close>: on a pending promise the reaction is stored, on a fulfilled one
  a job is queued. (Every address the code uses was handed out by an allocation; at an
  address outside the store, which the code never produces, nothing happens.)\<close>

definition then_promise :: "addr \<Rightarrow> callback \<Rightarrow> ('c, 's) world \<Rightarrow> ('c, 's) world" where
  "then_promise p cb w =
     (if p < length (promises w) then
        (case promises w ! p of
           Pending cbs \<Rightarrow> w\<lparr>promises := (promises w)[p := Pending (cbs @ [cb])]\<rparr>
         | Fulfilled c \<Rightarrow> w\<lparr>jobs := jobs w @ [(cb, c)]\<rparr>)
      else w)"

text \<open>\<^verbatim>\<open>conn._send(m)\<close> and \<^verbatim>\<open>dap.process(...)\<close> leave the file.\<close>

definition conn_send :: "connection \<Rightarrow> message \<Rightarrow> ('c, 's) world \<Rightarrow> ('c, 's) world" where
  "conn_send c m w = w\<lparr>calls := calls w @ [Send c m]\<rparr>"

definition process :: "connection \<Rightarrow> nat \<Rightarrow> string \<Rightarrow> ('c, 's) world \<Rightarrow> ('c, 's) world" where
  "process c pid n w = w\<lparr>calls := calls w @ [Process c pid n]\<rparr>"

text \<open>Running one job. Modelled from the spec: \<^verbatim>\<open>dap()\<close> of a connection
  (\<^verbatim>\<open>./dap/connection\<close> is not among the sources): the api of a Child Connection View is
  available as soon as the view is, so the second closure of the setter's chain is
  queued behind the jobs already waiting.\<close>

fun runJob :: "callback \<times> connection \<Rightarrow> ('c, 's) world \<Rightarrow> ('c, 's) world" where
  "runJob (GetDap pid n, c) w = w\<lparr>jobs := jobs w @ [(DapProcess pid n, c)]\<rparr>"
| "runJob (DapProcess pid n, c) w = process c pid n w"
| "runJob (SendMessage m, c) w = conn_send c m w"

text \<open>The measure of the queue that decreases with every job run: a \<open>GetDap\<close> job
  queues one further job, the others queue none.\<close>

fun job_cost :: "callback \<times> connection \<Rightarrow> nat" where
  "job_cost (GetDap pid n, c) = 2"
| "job_cost (DapProcess pid n, c) = 1"
| "job_cost (SendMessage m, c) = 1"

text \<open>The event loop drains the job queue, oldest job first, until it is empty.\<close>

function runJobs :: "('c, 's) world \<Rightarrow> ('c, 's) world" where
  "runJobs w =
     (case jobs w of
        [] \<Rightarrow> w
      | j # js \<Rightarrow> runJobs (runJob j (w\<lparr>jobs := js\<rparr>)))"
  by pat_completeness auto
termination
proof (relation "measure (\<lambda>w. sum_list (map job_cost (jobs w)))")
  show "wf (measure (\<lambda>w::('c, 's) world. sum_list (map job_cost (jobs w))))"
    by simp
next
  fix w :: "('c, 's) world" and j js
  assume "jobs w = j # js"
  then show "(runJob j (w\<lparr>jobs := js\<rparr>), w) \<in> measure (\<lambda>w. sum_list (map job_cost (jobs w)))"
    by (cases j rule: job_cost.cases) (simp_all add: conn_send_def process_def)
qed

declare runJobs.simps [simp del]

section \<open>The session object\<close>

text \<open>\<^verbatim>\<open>new VSDebugSession(id, name, childConnection, mockProcessId)\<close>: the constructor
  stores its arguments; the new object's address is returned.\<close>

definition new_VSDebugSession ::
  "string \<Rightarrow> string \<Rightarrow> addr \<Rightarrow> nat \<Rightarrow> ('c, 's) world \<Rightarrow> addr \<times> ('c, 's) world" where
  "new_VSDebugSession i n cc pid w =
     (length (debugSessions w),
      w\<lparr>debugSessions := debugSessions w @
         [\<lparr>session_id = i, session_name = n, childConnection = cc,
           session_mockProcessId = pid\<rparr>]\<rparr>)"

text \<open>The getter of \<^verbatim>\<open>name\<close> returns the private field, in both files. In the getter
  and the setters \<open>this\<close> is the address of an existing session object.\<close>

definition get_name :: "addr \<Rightarrow> ('c, 's) world \<Rightarrow> string" where
  "get_name this w = session_name (debugSessions w ! this)"

text \<open>The setter of \<^verbatim>\<open>name\<close> in \<^verbatim>\<open>flatSessionLauncher.ts\<close>: the field is assigned, then
  the chain of two closures is attached to the session's connection promise.\<close>

definition set_name :: "addr \<Rightarrow> string \<Rightarrow> ('c, 's) world \<Rightarrow> ('c, 's) world" where
  "set_name this newName w =
     (let s = debugSessions w ! this;
          w1 = w\<lparr>debugSessions := (debugSessions w)[this := s\<lparr>session_name := newName\<rparr>]\<rparr>
      in then_promise (childConnection s) (GetDap (session_mockProcessId s) newName) w1)"

text \<open>The setter of \<^verbatim>\<open>name\<close> in \<^verbatim>\<open>part_000\<close>: only the chain is attached; the field
  is not assigned.\<close>

definition set_name_p0 :: "addr \<Rightarrow> string \<Rightarrow> ('c, 's) world \<Rightarrow> ('c, 's) world" where
  "set_name_p0 this newName w =
     (let s = debugSessions w ! this
      in then_promise (childConnection s) (GetDap (session_mockProcessId s) newName) w)"

text \<open>\<^verbatim>\<open>this.mockProcessId++\<close> on a JavaScript number, an IEEE double: the integers up to
  \<open>2^53\<close> are exact, and \<open>2^53 + 1\<close> is rounded back to \<open>2^53\<close>. The counter starts at 1
  and changes by this increment only, so it counts up to \<open>2^53\<close> and stays there.\<close>

definition js_increment :: "nat \<Rightarrow> nat" where
  "js_increment n = (if n < 2 ^ 53 then n + 1 else n)"

section \<open>\<^verbatim>\<open>flatSessionLauncher.ts\<close>\<close>

record VSConnectionStrategy =
  strategy_rootConnection :: addr
  strategy_sessionId :: "string option"

type_synonym vsworld = "(connection, VSConnectionStrategy) world"

definition getConnection ::
  "VSConnectionStrategy \<Rightarrow> vsworld \<Rightarrow> error + connection \<times> vsworld" where
  "getConnection this w =
     new_ChildConnection (strategy_rootConnection this) (strategy_sessionId this) w"

definition buildConnectionStrategy :: "string option \<Rightarrow> vsworld \<Rightarrow> VSConnectionStrategy" where
  "buildConnectionStrategy sessionId w =
     \<lparr>strategy_rootConnection = rootConnection w, strategy_sessionId = sessionId\<rparr>"

text \<open>Modelled from the spec: \<^verbatim>\<open>SessionManager.createNewSession\<close> (\<^verbatim>\<open>./sessionManager\<close> is
  not among the sources). It invokes the Connection Strategy to obtain the Child
  Connection View, registers the Session in the registry keyed by the session
  object's identifier, and returns the new Session (section 4.4). An identifier, once
  registered, is never reused for another Session, and a duplicate registration aborts
  the creation of the session rather than overwriting (sections 4.4 and 7): the
  creation is aborted when the registry already has the key, and when the construction
  of the view raises; in both cases the registry and the views stay as they are.\<close>

definition createNewSession ::
  "addr \<Rightarrow> config \<Rightarrow> VSConnectionStrategy \<Rightarrow> vsworld \<Rightarrow>
     error \<times> vsworld + connection Session \<times> vsworld" where
  "createNewSession d cfg connectionStrat w =
     (let w1 = w\<lparr>calls := calls w @ [CreateNewSession d cfg connectionStrat]\<rparr>;
          k = session_id (debugSessions w ! d)
      in case sessions w k of
           Some registered \<Rightarrow> Inl (DuplicateRegistration k, w1)
         | None \<Rightarrow>
             (case getConnection connectionStrat w1 of
                Inl e \<Rightarrow> Inl (e, w1)
              | Inr (c, w2) \<Rightarrow>
                  (let newSession = \<lparr>debugSession = d, connection = c\<rparr>
                   in Inr (newSession, w2\<lparr>sessions := (sessions w2)(k \<mapsto> newSession)\<rparr>))))"

text \<open>\<^verbatim>\<open>sessionId || 'root'\<close>: \<^verbatim>\<open>undefined\<close> and the empty string are both falsy.\<close>

definition or_root :: "string option \<Rightarrow> string" where
  "or_root sessionId =
     (case sessionId of None \<Rightarrow> ''root'' | Some s \<Rightarrow> if s = [] then ''root'' else s)"

text \<open>\<^verbatim>\<open>createSession\<close>. The arguments of \<^verbatim>\<open>createNewSession\<close> are evaluated before the
  call: the session object is constructed and the counter incremented also when the
  call then throws, in which case \<^verbatim>\<open>deferredConnection.resolve\<close> is not reached.\<close>

definition createSession ::
  "string option \<Rightarrow> string \<Rightarrow> config \<Rightarrow> vsworld \<Rightarrow> (connection, VSConnectionStrategy) outcome" where
  "createSession sessionId n cfg w =
     (let connectionStrat = buildConnectionStrategy sessionId w;
          (deferredConnection, w1) = getDeferred w;
          pid = mockProcessId w1;
          w2 = w1\<lparr>mockProcessId := js_increment (mockProcessId w1)\<rparr>;
          (d, w3) = new_VSDebugSession (or_root sessionId) n deferredConnection pid w2
      in case createNewSession d cfg connectionStrat w3 of
           Inl (e, w4) \<Rightarrow> Inl (e, w4)
         | Inr (newSession, w4) \<Rightarrow> Inr (resolve deferredConnection (connection newSession) w4))"

text \<open>The message announcing a child, as the launcher writes it.\<close>

definition attachedChildSession :: "config \<Rightarrow> message" where
  "attachedChildSession childAttachConfig =
     \<lparr>seq = 0, command = ''attachedChildSession'', type = ''request'',
      arguments = \<lparr>config = childAttachConfig\<rparr>\<rparr>"

text \<open>The callback returned by \<^verbatim>\<open>buildVSSessionLauncher\<close>.
  \<^verbatim>\<open>{ ...config, sessionId: target.id() }\<close> copies the properties of \<^verbatim>\<open>config\<close> and then
  sets \<^verbatim>\<open>sessionId\<close>.\<close>

definition buildVSSessionLauncher ::
  "connection Session \<Rightarrow> target \<Rightarrow> config \<Rightarrow> vsworld \<Rightarrow>
     (connection, VSConnectionStrategy) outcome" where
  "buildVSSessionLauncher parentSession tgt cfg w =
     (let childAttachConfig = cfg(''sessionId'' \<mapsto> JString (target_id tgt))
      in case createSession (Some (target_id tgt)) (target_name tgt) childAttachConfig w of
           Inl (e, w1) \<Rightarrow> Inl (e, w1)
         | Inr w1 \<Rightarrow>
             Inr (conn_send (connection parentSession) (attachedChildSession childAttachConfig) w1))"

text \<open>\<^verbatim>\<open>rootConnection.init(inputStream, outputStream)\<close> leaves the file.\<close>

definition init :: "addr \<Rightarrow> ('c, 's) world \<Rightarrow> ('c, 's) world" where
  "init r w = w\<lparr>calls := calls w @ [Init r]\<rparr>"

text \<open>The state of a manager whose fields are initialised and whose constructor body
  has not run yet. \<open>r\<close> is the identity of the \<^verbatim>\<open>MessageEmitterConnection\<close> the
  constructor creates.\<close>

definition new_world :: "addr \<Rightarrow> ('c, 's) world" where
  "new_world r =
     \<lparr>rootConnection = r, mockProcessId = 1, sessions = Map.empty, children = Map.empty,
      debugSessions = [], promises = [], jobs = [], calls = []\<rparr>"

text \<open>The constructor of \<^verbatim>\<open>VSSessionManager\<close>.\<close>

definition VSSessionManager :: "addr \<Rightarrow> (connection, VSConnectionStrategy) outcome" where
  "VSSessionManager r =
     (case createSession None ''rootSession'' Map.empty (new_world r) of
        Inl (e, w) \<Rightarrow> Inl (e, w)
      | Inr w \<Rightarrow> Inr (init r w))"

section \<open>\<^verbatim>\<open>part_000\<close>\<close>

text \<open>In this file the connection strategy owns the Deferred Connection Handle: the
  constructor creates it, \<^verbatim>\<open>init\<close> resolves it and \<^verbatim>\<open>getConnection\<close> returns its
  promise.\<close>

record VSConnectionStrategy_p0 =
  strategy_rootConnection_p0 :: addr
  strategy_sessionId_p0 :: "string option"
  deferredChildConnection :: addr

type_synonym vsworld_p0 = "(addr, VSConnectionStrategy_p0) world"

definition new_VSConnectionStrategy_p0 ::
  "addr \<Rightarrow> string option \<Rightarrow> vsworld_p0 \<Rightarrow> VSConnectionStrategy_p0 \<times> vsworld_p0" where
  "new_VSConnectionStrategy_p0 r sessionId w =
     (let (d, w1) = getDeferred w
      in (\<lparr>strategy_rootConnection_p0 = r, strategy_sessionId_p0 = sessionId,
            deferredChildConnection = d\<rparr>, w1))"

text \<open>\<^verbatim>\<open>init\<close>: the view is constructed first; when its construction raises, the handle
  is not resolved.\<close>

definition init_p0 ::
  "VSConnectionStrategy_p0 \<Rightarrow> vsworld_p0 \<Rightarrow> (addr, VSConnectionStrategy_p0) outcome" where
  "init_p0 this w =
     (case new_ChildConnection (strategy_rootConnection_p0 this) (strategy_sessionId_p0 this) w of
        Inl e \<Rightarrow> Inl (e, w)
      | Inr (c, w1) \<Rightarrow> Inr (resolve (deferredChildConnection this) c w1))"

definition getConnection_p0 :: "VSConnectionStrategy_p0 \<Rightarrow> addr" where
  "getConnection_p0 this = deferredChildConnection this"

definition buildConnectionStrategy_p0 ::
  "string option \<Rightarrow> vsworld_p0 \<Rightarrow> VSConnectionStrategy_p0 \<times> vsworld_p0" where
  "buildConnectionStrategy_p0 sessionId w =
     new_VSConnectionStrategy_p0 (rootConnection w) sessionId w"

text \<open>Modelled from the spec: \<^verbatim>\<open>SessionManager.createNewSession\<close> as \<^verbatim>\<open>part_000\<close> uses it
  (\<^verbatim>\<open>./sessionManager\<close> is not among the sources). As in the other file it aborts on a
  key the registry already has and on a view whose construction raises, and otherwise
  registers and returns the Session. No code of \<^verbatim>\<open>part_000\<close> calls \<^verbatim>\<open>init\<close>; that the
  session manager does is taken from section 4.4 of the spec (the registry "invokes
  the Connection Strategy to obtain the real Child Connection View", supplying the
  reporting and logging handles of section 4.3, which in this file are the parameters
  of \<^verbatim>\<open>init\<close>); \<^verbatim>\<open>getConnection()\<close> then is the Session's connection.\<close>

definition createNewSession_p0 ::
  "addr \<Rightarrow> config \<Rightarrow> VSConnectionStrategy_p0 \<Rightarrow> vsworld_p0 \<Rightarrow>
     error \<times> vsworld_p0 + addr Session \<times> vsworld_p0" where
  "createNewSession_p0 d cfg connectionStrat w =
     (let w1 = w\<lparr>calls := calls w @ [CreateNewSession d cfg connectionStrat]\<rparr>;
          k = session_id (debugSessions w ! d)
      in case sessions w k of
           Some registered \<Rightarrow> Inl (DuplicateRegistration k, w1)
         | None \<Rightarrow>
             (case init_p0 connectionStrat w1 of
                Inl (e, w2) \<Rightarrow> Inl (e, w2)
              | Inr w2 \<Rightarrow>
                  (let newSession =
                         \<lparr>debugSession = d, connection = getConnection_p0 connectionStrat\<rparr>
                   in Inr (newSession, w2\<lparr>sessions := (sessions w2)(k \<mapsto> newSession)\<rparr>))))"

definition createSession_p0 ::
  "string \<Rightarrow> string \<Rightarrow> config \<Rightarrow> vsworld_p0 \<Rightarrow> (addr, VSConnectionStrategy_p0) outcome" where
  "createSession_p0 sessionId n cfg w =
     (let (connectionStrat, w1) = buildConnectionStrategy_p0 (Some sessionId) w;
          pid = mockProcessId w1;
          w2 = w1\<lparr>mockProcessId := js_increment (mockProcessId w1)\<rparr>;
          (d, w3) = new_VSDebugSession sessionId n (getConnection_p0 connectionStrat) pid w2
      in case createNewSession_p0 d cfg connectionStrat w3 of
           Inl (e, w4) \<Rightarrow> Inl (e, w4)
         | Inr (newSession, w4) \<Rightarrow> Inr w4)"

definition buildVSSessionLauncher_p0 ::
  "addr Session \<Rightarrow> target \<Rightarrow> config \<Rightarrow> vsworld_p0 \<Rightarrow>
     (addr, VSConnectionStrategy_p0) outcome" where
  "buildVSSessionLauncher_p0 parentSession tgt cfg w =
     (let childAttachConfig = cfg(''sessionId'' \<mapsto> JString (target_id tgt))
      in case createSession_p0 (target_id tgt) (target_name tgt) childAttachConfig w of
           Inl (e, w1) \<Rightarrow> Inl (e, w1)
         | Inr w1 \<Rightarrow>
             Inr (then_promise (connection parentSession)
                    (SendMessage (attachedChildSession childAttachConfig)) w1))"

definition VSSessionManager_p0 :: "addr \<Rightarrow> (addr, VSConnectionStrategy_p0) outcome" where
  "VSSessionManager_p0 r =
     (case createSession_p0 [] ''rootSession'' Map.empty (new_world r) of
        Inl (e, w) \<Rightarrow> Inl (e, w)
      | Inr w \<Rightarrow> Inr (init r w))"

section \<open>Histories of a manager\<close>

text \<open>After its construction a manager sees three kinds of events: its launcher
  callback is invoked, the name of an existing session object is assigned, and the
  event loop runs the queued jobs. A launch that throws hands the exception to its
  caller; the manager goes on from the world the launch left.\<close>

datatype 'c op =
    Launch "'c Session" target config
  | SetName addr string
  | RunJobs

fun step :: "connection op \<Rightarrow> vsworld \<Rightarrow> vsworld" where
  "step (Launch parentSession tgt cfg) w =
     the_world (buildVSSessionLauncher parentSession tgt cfg w)"
| "step (SetName this newName) w =
     (if this < length (debugSessions w) then set_name this newName w else w)"
| "step RunJobs w = runJobs w"

fun step_p0 :: "addr op \<Rightarrow> vsworld_p0 \<Rightarrow> vsworld_p0" where
  "step_p0 (Launch parentSession tgt cfg) w =
     the_world (buildVSSessionLauncher_p0 parentSession tgt cfg w)"
| "step_p0 (SetName this newName) w =
     (if this < length (debugSessions w) then set_name_p0 this newName w else w)"
| "step_p0 RunJobs w = runJobs w"

definition run :: "connection op list \<Rightarrow> vsworld \<Rightarrow> vsworld" where
  "run ops w = fold step ops w"

definition run_p0 :: "addr op list \<Rightarrow> vsworld_p0 \<Rightarrow> vsworld_p0" where
  "run_p0 ops w = fold step_p0 ops w"

section \<open>Reading the record of calls\<close>

fun is_Send :: "'s call \<Rightarrow> bool" where
  "is_Send (Send c m) = True"
| "is_Send other = False"

fun is_Process :: "'s call \<Rightarrow> bool" where
  "is_Process (Process c pid n) = True"
| "is_Process other = False"

fun is_CreateNewSession :: "'s call \<Rightarrow> bool" where
  "is_CreateNewSession (CreateNewSession d cfg s) = True"
| "is_CreateNewSession other = False"

fun is_Launch :: "'c op \<Rightarrow> bool" where
  "is_Launch (Launch parentSession tgt cfg) = True"
| "is_Launch other = False"

text \<open>The calls a job makes when it runs, and the calls made by the job it queues.\<close>

fun immediate :: "callback \<times> connection \<Rightarrow> 's call list" where
  "immediate (GetDap pid n, c) = []"
| "immediate (DapProcess pid n, c) = [Process c pid n]"
| "immediate (SendMessage m, c) = [Send c m]"

fun queued :: "callback \<times> connection \<Rightarrow> 's call list" where
  "queued (GetDap pid n, c) = [Process c pid n]"
| "queued (DapProcess pid n, c) = []"
| "queued (SendMessage m, c) = []"

definition emitted :: "(callback \<times> connection) list \<Rightarrow> 's call list" where
  "emitted js = concat (map immediate js) @ concat (map queued js)"

text \<open>The configuration a call carries: the one handed to \<^verbatim>\<open>createNewSession\<close>, the one
  announced in a message.\<close>

fun call_config :: "'s call \<Rightarrow> config option" where
  "call_config (CreateNewSession d cfg s) = Some cfg"
| "call_config (Send c m) = Some (config (arguments m))"
| "call_config other = None"

section \<open>Fresh identifiers, invariants, and a world with a pending handle\<close>

text \<open>A session can be created under an identifier when neither the registry nor the
  root connection has it. In \<^verbatim>\<open>flatSessionLauncher.ts\<close> the registry is keyed by the
  session object's \<^verbatim>\<open>id\<close>, which is \<^verbatim>\<open>sessionId || 'root'\<close>.\<close>

definition fresh :: "string option \<Rightarrow> vsworld \<Rightarrow> bool" where
  "fresh sessionId w \<longleftrightarrow>
     sessions w (or_root sessionId) = None \<and> children w (identifier_of sessionId) = None"

definition fresh_p0 :: "string \<Rightarrow> vsworld_p0 \<Rightarrow> bool" where
  "fresh_p0 sessionId w \<longleftrightarrow> sessions w sessionId = None \<and> children w sessionId = None"

text \<open>The invariant behind the surrogate identifiers: at most \<open>2^53\<close> session objects
  exist, they carry the numbers \<open>1, 2, 3, \<dots>\<close> in the order of their construction, and
  the counter is one ahead of their number, or has stopped at \<open>2^53\<close>.\<close>

definition numbered :: "('c, 's) world \<Rightarrow> bool" where
  "numbered w \<longleftrightarrow>
     length (debugSessions w) \<le> 2 ^ 53 \<and>
     mockProcessId w = min (Suc (length (debugSessions w))) (2 ^ 53) \<and>
     map session_mockProcessId (debugSessions w) = [1 ..< Suc (length (debugSessions w))]"

text \<open>The invariant behind the connections in \<^verbatim>\<open>part_000\<close>: the connection of every
  registered Session is a fulfilled promise of the store.\<close>

definition connected :: "vsworld_p0 \<Rightarrow> bool" where
  "connected v \<longleftrightarrow>
     (\<forall>k s. sessions v k = Some s \<longrightarrow>
        connection s < length (promises v) \<and> (\<exists>c. promises v ! connection s = Fulfilled c))"

text \<open>A world holding one session object whose connection promise is still pending: the
  state between the construction of the object and the resolution of its handle.\<close>

definition unresolved_session :: "addr \<Rightarrow> string \<Rightarrow> string \<Rightarrow> ('c, 's) world" where
  "unresolved_session r i n =
     (let (p, w1) = getDeferred (new_world r) in snd (new_VSDebugSession i n p 1 w1))"

text \<open>A manager that has launched the child \<open>''child-1''\<close> from its root session, in
  either file.\<close>

definition manager_with_child :: vsworld where
  "manager_with_child =
     the_world (buildVSSessionLauncher \<lparr>debugSession = 0, connection = ChildConnection 7 None\<rparr>
       \<lparr>target_id = ''child-1'', target_name = ''worker''\<rparr> Map.empty
       (the_world (VSSessionManager 7)))"

definition manager_with_child_p0 :: vsworld_p0 where
  "manager_with_child_p0 =
     the_world (buildVSSessionLauncher_p0 \<lparr>debugSession = 0, connection = 0\<rparr>
       \<lparr>target_id = ''child-1'', target_name = ''worker''\<rparr> Map.empty
       (the_world (VSSessionManager_p0 7)))"

section \<open>The event loop\<close>

lemma calls_runJobs: "calls (runJobs w) = calls w @ emitted (jobs w)"
proof (induction w rule: runJobs.induct)
  case (1 w)
  show ?case
  proof (cases "jobs w")
    case Nil
    then show ?thesis
      by (simp add: runJobs.simps[of w] emitted_def)
  next
    case (Cons j js)
    have step: "runJobs w = runJobs (runJob j (w\<lparr>jobs := js\<rparr>))"
      using Cons by (simp add: runJobs.simps[of w])
    have ih: "calls (runJobs (runJob j (w\<lparr>jobs := js\<rparr>))) =
        calls (runJob j (w\<lparr>jobs := js\<rparr>)) @ emitted (jobs (runJob j (w\<lparr>jobs := js\<rparr>)))"
      using "1.IH" Cons by simp
    show ?thesis
      unfolding step ih using Cons
      by (cases j rule: job_cost.cases)
        (simp_all add: emitted_def conn_send_def process_def)
  qed
qed

lemma jobs_runJobs: "jobs (runJobs w) = []"
proof (induction w rule: runJobs.induct)
  case (1 w)
  then show ?case
    by (cases "jobs w") (simp_all add: runJobs.simps[of w])
qed

lemma runJob_heap:
  "debugSessions (runJob j w) = debugSessions w"
  "promises (runJob j w) = promises w"
  "mockProcessId (runJob j w) = mockProcessId w"
  "rootConnection (runJob j w) = rootConnection w"
  "sessions (runJob j w) = sessions w"
  "children (runJob j w) = children w"
  by (cases j rule: job_cost.cases; simp add: conn_send_def process_def)+

lemma runJobs_heap:
  "debugSessions (runJobs w) = debugSessions w \<and> promises (runJobs w) = promises w \<and>
   mockProcessId (runJobs w) = mockProcessId w \<and> rootConnection (runJobs w) = rootConnection w \<and>
   sessions (runJobs w) = sessions w \<and> children (runJobs w) = children w"
proof (induction w rule: runJobs.induct)
  case (1 w)
  then show ?case
    by (cases "jobs w") (simp_all add: runJobs.simps[of w] runJob_heap)
qed

lemma emitted_Nil [simp]: "emitted [] = []"
  by (simp add: emitted_def)

lemma Send_queued [simp]: "filter is_Send (concat (map queued js)) = []"
proof (induction js)
  case Nil
  show ?case by simp
next
  case (Cons j js)
  then show ?case by (cases j rule: job_cost.cases) simp_all
qed

lemma Send_emitted_snoc:
  "filter is_Send (emitted (js @ [(SendMessage m, c)])) = filter is_Send (emitted js) @ [Send c m]"
  by (simp add: emitted_def)

lemma emitted_snoc_GetDap:
  "emitted (js @ [(GetDap pid n, c)]) = emitted js @ [Process c pid n]"
  by (simp add: emitted_def)

lemma immediate_GetDaps: "concat (map (\<lambda>n. immediate (GetDap pid n, c)) ns) = []"
  by (induction ns) simp_all

lemma queued_GetDaps: "concat (map (\<lambda>n. queued (GetDap pid n, c)) ns) = map (Process c pid) ns"
  by (induction ns) simp_all

lemma emitted_GetDaps:
  "emitted (js @ map (\<lambda>n. (GetDap pid n, c)) ns) = emitted js @ map (Process c pid) ns"
  by (simp add: emitted_def comp_def immediate_GetDaps queued_GetDaps)

section \<open>What session construction changes\<close>

lemma the_world_simps [simp]: "the_world (Inr w) = w" "the_world (Inl (e, w)) = w"
  by (simp_all add: the_world_def)

lemma returns_case:
  "x = Inr (the_world x) \<Longrightarrow> (case x of Inl (e, w) \<Rightarrow> f e w | Inr w \<Rightarrow> g w) = g (the_world x)"
  by (cases x) auto

lemma throws_case:
  "x = Inl (e, the_world x) \<Longrightarrow> (case x of Inl (e, w) \<Rightarrow> f e w | Inr w \<Rightarrow> g w) = f e (the_world x)"
  by (cases x) auto

lemmas createSession_defs =
  createSession_def buildConnectionStrategy_def getDeferred_def new_VSDebugSession_def
  createNewSession_def getConnection_def new_ChildConnection_def resolve_def Let_def

lemma createSession_always:
  "debugSessions (the_world (createSession sid n cfg w)) =
     debugSessions w @ [\<lparr>session_id = or_root sid, session_name = n,
        childConnection = length (promises w), session_mockProcessId = mockProcessId w\<rparr>]"
  "mockProcessId (the_world (createSession sid n cfg w)) = js_increment (mockProcessId w)"
  "jobs (the_world (createSession sid n cfg w)) = jobs w"
  "rootConnection (the_world (createSession sid n cfg w)) = rootConnection w"
  by (simp_all add: createSession_defs split: option.split)

lemma createSession_returns:
  "fresh sid w \<Longrightarrow> createSession sid n cfg w = Inr (the_world (createSession sid n cfg w))"
  by (simp add: createSession_defs fresh_def)

lemma createSession_fresh:
  assumes "fresh sid w"
  shows "calls (the_world (createSession sid n cfg w)) =
     calls w @ [CreateNewSession (length (debugSessions w)) cfg
                  \<lparr>strategy_rootConnection = rootConnection w, strategy_sessionId = sid\<rparr>,
                Resolve (length (promises w)) (ChildConnection (rootConnection w) sid)]"
    and "promises (the_world (createSession sid n cfg w)) =
     promises w @ [Fulfilled (ChildConnection (rootConnection w) sid)]"
    and "sessions (the_world (createSession sid n cfg w)) =
     (sessions w)(or_root sid \<mapsto>
        \<lparr>debugSession = length (debugSessions w),
         connection = ChildConnection (rootConnection w) sid\<rparr>)"
    and "children (the_world (createSession sid n cfg w)) =
     (children w)(identifier_of sid \<mapsto> ChildConnection (rootConnection w) sid)"
  using assms by (simp_all add: createSession_defs fresh_def)

lemma createSession_throws:
  "\<not> fresh sid w \<Longrightarrow>
   createSession sid n cfg w =
      Inl (DuplicateRegistration (if sessions w (or_root sid) = None then identifier_of sid else or_root sid),
           the_world (createSession sid n cfg w))"
  by (auto simp: createSession_defs fresh_def split: option.split)

lemma createSession_stale:
  assumes "\<not> fresh sid w"
  shows "calls (the_world (createSession sid n cfg w)) =
     calls w @ [CreateNewSession (length (debugSessions w)) cfg
                  \<lparr>strategy_rootConnection = rootConnection w, strategy_sessionId = sid\<rparr>]"
    and "promises (the_world (createSession sid n cfg w)) = promises w @ [Pending []]"
    and "sessions (the_world (createSession sid n cfg w)) = sessions w"
    and "children (the_world (createSession sid n cfg w)) = children w"
  using assms by (auto simp: createSession_defs fresh_def split: option.split)

lemmas createSession_p0_defs =
  createSession_p0_def buildConnectionStrategy_p0_def new_VSConnectionStrategy_p0_def
  getDeferred_def new_VSDebugSession_def createNewSession_p0_def init_p0_def
  getConnection_p0_def new_ChildConnection_def resolve_def identifier_of_def Let_def

lemma createSession_p0_always:
  "debugSessions (the_world (createSession_p0 sid n cfg w)) =
     debugSessions w @ [\<lparr>session_id = sid, session_name = n,
        childConnection = length (promises w), session_mockProcessId = mockProcessId w\<rparr>]"
  "mockProcessId (the_world (createSession_p0 sid n cfg w)) = js_increment (mockProcessId w)"
  "jobs (the_world (createSession_p0 sid n cfg w)) = jobs w"
  "rootConnection (the_world (createSession_p0 sid n cfg w)) = rootConnection w"
  by (simp_all add: createSession_p0_defs split: option.split)

lemma createSession_p0_returns:
  "fresh_p0 sid w \<Longrightarrow>
   createSession_p0 sid n cfg w = Inr (the_world (createSession_p0 sid n cfg w))"
  by (simp add: createSession_p0_defs fresh_p0_def)

lemma createSession_p0_fresh:
  assumes "fresh_p0 sid w"
  shows "calls (the_world (createSession_p0 sid n cfg w)) =
     calls w @ [CreateNewSession (length (debugSessions w)) cfg
                  \<lparr>strategy_rootConnection_p0 = rootConnection w, strategy_sessionId_p0 = Some sid,
                   deferredChildConnection = length (promises w)\<rparr>,
                Resolve (length (promises w)) (ChildConnection (rootConnection w) (Some sid))]"
    and "promises (the_world (createSession_p0 sid n cfg w)) =
     promises w @ [Fulfilled (ChildConnection (rootConnection w) (Some sid))]"
    and "sessions (the_world (createSession_p0 sid n cfg w)) =
     (sessions w)(sid \<mapsto>
        \<lparr>debugSession = length (debugSessions w), connection = length (promises w)\<rparr>)"
    and "children (the_world (createSession_p0 sid n cfg w)) =
     (children w)(sid \<mapsto> ChildConnection (rootConnection w) (Some sid))"
  using assms by (simp_all add: createSession_p0_defs fresh_p0_def)

lemma createSession_p0_throws:
  "\<not> fresh_p0 sid w \<Longrightarrow>
   createSession_p0 sid n cfg w =
      Inl (DuplicateRegistration sid, the_world (createSession_p0 sid n cfg w))"
  by (auto simp: createSession_p0_defs fresh_p0_def split: option.split)

lemma createSession_p0_stale:
  assumes "\<not> fresh_p0 sid w"
  shows "calls (the_world (createSession_p0 sid n cfg w)) =
     calls w @ [CreateNewSession (length (debugSessions w)) cfg
                  \<lparr>strategy_rootConnection_p0 = rootConnection w, strategy_sessionId_p0 = Some sid,
                   deferredChildConnection = length (promises w)\<rparr>]"
    and "promises (the_world (createSession_p0 sid n cfg w)) = promises w @ [Pending []]"
    and "sessions (the_world (createSession_p0 sid n cfg w)) = sessions w"
    and "children (the_world (createSession_p0 sid n cfg w)) = children w"
  using assms by (auto simp: createSession_p0_defs fresh_p0_def split: option.split)

section \<open>What promises and the name setter change\<close>

lemma then_promise_fields:
  "debugSessions (then_promise p cb w) = debugSessions w"
  "mockProcessId (then_promise p cb w) = mockProcessId w"
  "rootConnection (then_promise p cb w) = rootConnection w"
  "sessions (then_promise p cb w) = sessions w"
  "children (then_promise p cb w) = children w"
  "calls (then_promise p cb w) = calls w"
  "length (promises (then_promise p cb w)) = length (promises w)"
  by (simp_all add: then_promise_def split: promise.split)

lemma then_promise_Pending:
  "p < length (promises w) \<Longrightarrow> promises w ! p = Pending cbs \<Longrightarrow>
   promises (then_promise p cb w) = (promises w)[p := Pending (cbs @ [cb])] \<and>
   jobs (then_promise p cb w) = jobs w"
  by (simp add: then_promise_def)

lemma then_promise_Fulfilled:
  "p < length (promises w) \<Longrightarrow> promises w ! p = Fulfilled c \<Longrightarrow>
   promises (then_promise p cb w) = promises w \<and>
   jobs (then_promise p cb w) = jobs w @ [(cb, c)]"
  by (simp add: then_promise_def)

lemma set_name_fields:
  "debugSessions (set_name this n w) =
     (debugSessions w)[this := (debugSessions w ! this)\<lparr>session_name := n\<rparr>]"
  "mockProcessId (set_name this n w) = mockProcessId w"
  "rootConnection (set_name this n w) = rootConnection w"
  "sessions (set_name this n w) = sessions w"
  "children (set_name this n w) = children w"
  "calls (set_name this n w) = calls w"
  "length (promises (set_name this n w)) = length (promises w)"
  by (simp_all add: set_name_def Let_def then_promise_fields)

lemma set_name_p0_fields:
  "debugSessions (set_name_p0 this n w) = debugSessions w"
  "mockProcessId (set_name_p0 this n w) = mockProcessId w"
  "rootConnection (set_name_p0 this n w) = rootConnection w"
  "sessions (set_name_p0 this n w) = sessions w"
  "children (set_name_p0 this n w) = children w"
  "calls (set_name_p0 this n w) = calls w"
  "length (promises (set_name_p0 this n w)) = length (promises w)"
  by (simp_all add: set_name_p0_def Let_def then_promise_fields)

lemma set_name_Pending:
  assumes "childConnection (debugSessions w ! this) < length (promises w)"
    and "promises w ! childConnection (debugSessions w ! this) = Pending cbs"
  shows "promises (set_name this n w) =
      (promises w)[childConnection (debugSessions w ! this) :=
         Pending (cbs @ [GetDap (session_mockProcessId (debugSessions w ! this)) n])]"
    and "jobs (set_name this n w) = jobs w"
  using assms by (simp_all add: set_name_def Let_def then_promise_def)

lemma set_name_Fulfilled:
  assumes "childConnection (debugSessions w ! this) < length (promises w)"
    and "promises w ! childConnection (debugSessions w ! this) = Fulfilled c"
  shows "promises (set_name this n w) = promises w"
    and "jobs (set_name this n w) =
      jobs w @ [(GetDap (session_mockProcessId (debugSessions w ! this)) n, c)]"
  using assms by (simp_all add: set_name_def Let_def then_promise_def)

lemma set_name_p0_Pending:
  assumes "childConnection (debugSessions w ! this) < length (promises w)"
    and "promises w ! childConnection (debugSessions w ! this) = Pending cbs"
  shows "promises (set_name_p0 this n w) =
      (promises w)[childConnection (debugSessions w ! this) :=
         Pending (cbs @ [GetDap (session_mockProcessId (debugSessions w ! this)) n])]"
    and "jobs (set_name_p0 this n w) = jobs w"
  using assms by (simp_all add: set_name_p0_def Let_def then_promise_def)

lemma set_name_p0_Fulfilled:
  assumes "childConnection (debugSessions w ! this) < length (promises w)"
    and "promises w ! childConnection (debugSessions w ! this) = Fulfilled c"
  shows "promises (set_name_p0 this n w) = promises w"
    and "jobs (set_name_p0 this n w) =
      jobs w @ [(GetDap (session_mockProcessId (debugSessions w ! this)) n, c)]"
  using assms by (simp_all add: set_name_p0_def Let_def then_promise_def)

lemma resolve_fields:
  "debugSessions (resolve p c w) = debugSessions w"
  "mockProcessId (resolve p c w) = mockProcessId w"
  "rootConnection (resolve p c w) = rootConnection w"
  "sessions (resolve p c w) = sessions w"
  "children (resolve p c w) = children w"
  "calls (resolve p c w) = calls w @ [Resolve p c]"
  by (simp_all add: resolve_def Let_def split: promise.split)

lemma resolve_Pending:
  "p < length (promises w) \<Longrightarrow> promises w ! p = Pending cbs \<Longrightarrow>
   promises (resolve p c w) = (promises w)[p := Fulfilled c] \<and>
   jobs (resolve p c w) = jobs w @ map (\<lambda>cb. (cb, c)) cbs"
  by (simp add: resolve_def Let_def)

lemma resolve_Fulfilled:
  "p < length (promises w) \<Longrightarrow> promises w ! p = Fulfilled c' \<Longrightarrow>
   promises (resolve p c w) = promises w \<and> jobs (resolve p c w) = jobs w"
  by (simp add: resolve_def Let_def)


section \<open>What the launcher and the constructor change\<close>

lemma launcher_eq:
  "buildVSSessionLauncher parentSession tgt cfg w =
     (if fresh (Some (target_id tgt)) w then
        Inr (conn_send (connection parentSession)
               (attachedChildSession (cfg(''sessionId'' \<mapsto> JString (target_id tgt))))
               (the_world (createSession (Some (target_id tgt)) (target_name tgt)
                  (cfg(''sessionId'' \<mapsto> JString (target_id tgt))) w)))
      else
        Inl (DuplicateRegistration
               (if sessions w (or_root (Some (target_id tgt))) = None then target_id tgt
                else or_root (Some (target_id tgt))),
             the_world (createSession (Some (target_id tgt)) (target_name tgt)
               (cfg(''sessionId'' \<mapsto> JString (target_id tgt))) w)))"
proof (cases "fresh (Some (target_id tgt)) w")
  case True
  show ?thesis
    unfolding buildVSSessionLauncher_def Let_def
    by (simp add: returns_case [OF createSession_returns [OF True]] True)
next
  case False
  show ?thesis
    unfolding buildVSSessionLauncher_def Let_def
    by (simp add: throws_case [OF createSession_throws [OF False]] False identifier_of_def)
qed

lemma launcher_p0_eq:
  "buildVSSessionLauncher_p0 parentSession tgt cfg w =
     (if fresh_p0 (target_id tgt) w then
        Inr (then_promise (connection parentSession)
               (SendMessage (attachedChildSession (cfg(''sessionId'' \<mapsto> JString (target_id tgt)))))
               (the_world (createSession_p0 (target_id tgt) (target_name tgt)
                  (cfg(''sessionId'' \<mapsto> JString (target_id tgt))) w)))
      else
        Inl (DuplicateRegistration (target_id tgt),
             the_world (createSession_p0 (target_id tgt) (target_name tgt)
               (cfg(''sessionId'' \<mapsto> JString (target_id tgt))) w)))"
proof (cases "fresh_p0 (target_id tgt) w")
  case True
  show ?thesis
    unfolding buildVSSessionLauncher_p0_def Let_def
    by (simp add: returns_case [OF createSession_p0_returns [OF True]] True)
next
  case False
  show ?thesis
    unfolding buildVSSessionLauncher_p0_def Let_def
    by (simp add: throws_case [OF createSession_p0_throws [OF False]] False)
qed

lemma launcher_always:
  "debugSessions (the_world (buildVSSessionLauncher parentSession tgt cfg w)) =
     debugSessions w @ [\<lparr>session_id = or_root (Some (target_id tgt)), session_name = target_name tgt,
        childConnection = length (promises w), session_mockProcessId = mockProcessId w\<rparr>]"
  "mockProcessId (the_world (buildVSSessionLauncher parentSession tgt cfg w)) =
     js_increment (mockProcessId w)"
  "jobs (the_world (buildVSSessionLauncher parentSession tgt cfg w)) = jobs w"
  "rootConnection (the_world (buildVSSessionLauncher parentSession tgt cfg w)) = rootConnection w"
  by (simp_all add: launcher_eq conn_send_def createSession_always)

lemma launcher_fresh:
  assumes "fresh (Some (target_id tgt)) w"
  shows "calls (the_world (buildVSSessionLauncher parentSession tgt cfg w)) =
     calls w @ [CreateNewSession (length (debugSessions w)) (cfg(''sessionId'' \<mapsto> JString (target_id tgt)))
                  \<lparr>strategy_rootConnection = rootConnection w, strategy_sessionId = Some (target_id tgt)\<rparr>,
                Resolve (length (promises w)) (ChildConnection (rootConnection w) (Some (target_id tgt))),
                Send (connection parentSession)
                  (attachedChildSession (cfg(''sessionId'' \<mapsto> JString (target_id tgt))))]"
    and "promises (the_world (buildVSSessionLauncher parentSession tgt cfg w)) =
     promises w @ [Fulfilled (ChildConnection (rootConnection w) (Some (target_id tgt)))]"
    and "sessions (the_world (buildVSSessionLauncher parentSession tgt cfg w)) =
     (sessions w)(or_root (Some (target_id tgt)) \<mapsto>
        \<lparr>debugSession = length (debugSessions w),
         connection = ChildConnection (rootConnection w) (Some (target_id tgt))\<rparr>)"
    and "children (the_world (buildVSSessionLauncher parentSession tgt cfg w)) =
     (children w)(target_id tgt \<mapsto> ChildConnection (rootConnection w) (Some (target_id tgt)))"
  using assms
  by (simp_all add: launcher_eq conn_send_def createSession_fresh identifier_of_def)

lemma launcher_stale:
  assumes "\<not> fresh (Some (target_id tgt)) w"
  shows "calls (the_world (buildVSSessionLauncher parentSession tgt cfg w)) =
     calls w @ [CreateNewSession (length (debugSessions w)) (cfg(''sessionId'' \<mapsto> JString (target_id tgt)))
                  \<lparr>strategy_rootConnection = rootConnection w, strategy_sessionId = Some (target_id tgt)\<rparr>]"
    and "promises (the_world (buildVSSessionLauncher parentSession tgt cfg w)) =
     promises w @ [Pending []]"
    and "sessions (the_world (buildVSSessionLauncher parentSession tgt cfg w)) = sessions w"
    and "children (the_world (buildVSSessionLauncher parentSession tgt cfg w)) = children w"
  using assms
  by (simp_all add: launcher_eq createSession_stale)

lemma launcher_p0_always:
  "debugSessions (the_world (buildVSSessionLauncher_p0 parentSession tgt cfg w)) =
     debugSessions w @ [\<lparr>session_id = target_id tgt, session_name = target_name tgt,
        childConnection = length (promises w), session_mockProcessId = mockProcessId w\<rparr>]"
  "mockProcessId (the_world (buildVSSessionLauncher_p0 parentSession tgt cfg w)) =
     js_increment (mockProcessId w)"
  "rootConnection (the_world (buildVSSessionLauncher_p0 parentSession tgt cfg w)) = rootConnection w"
  by (simp_all add: launcher_p0_eq then_promise_fields createSession_p0_always)

lemma launcher_p0_fresh:
  assumes "fresh_p0 (target_id tgt) w"
  shows "calls (the_world (buildVSSessionLauncher_p0 parentSession tgt cfg w)) =
     calls w @ [CreateNewSession (length (debugSessions w)) (cfg(''sessionId'' \<mapsto> JString (target_id tgt)))
                  \<lparr>strategy_rootConnection_p0 = rootConnection w,
                   strategy_sessionId_p0 = Some (target_id tgt),
                   deferredChildConnection = length (promises w)\<rparr>,
                Resolve (length (promises w)) (ChildConnection (rootConnection w) (Some (target_id tgt)))]"
    and "sessions (the_world (buildVSSessionLauncher_p0 parentSession tgt cfg w)) =
     (sessions w)(target_id tgt \<mapsto>
        \<lparr>debugSession = length (debugSessions w), connection = length (promises w)\<rparr>)"
    and "children (the_world (buildVSSessionLauncher_p0 parentSession tgt cfg w)) =
     (children w)(target_id tgt \<mapsto> ChildConnection (rootConnection w) (Some (target_id tgt)))"
    and "promises (the_world (buildVSSessionLauncher_p0 parentSession tgt cfg w)) ! length (promises w) =
     Fulfilled (ChildConnection (rootConnection w) (Some (target_id tgt)))"
  using assms
  by (simp_all add: launcher_p0_eq then_promise_fields createSession_p0_fresh then_promise_def
      nth_append split: promise.split)

lemma launcher_p0_fresh_jobs:
  assumes "fresh_p0 (target_id tgt) w"
    and "connection parentSession < length (promises w)"
    and "promises w ! connection parentSession = Fulfilled c"
  shows "jobs (the_world (buildVSSessionLauncher_p0 parentSession tgt cfg w)) =
     jobs w @ [(SendMessage (attachedChildSession (cfg(''sessionId'' \<mapsto> JString (target_id tgt)))), c)]"
    and "promises (the_world (buildVSSessionLauncher_p0 parentSession tgt cfg w)) =
     promises w @ [Fulfilled (ChildConnection (rootConnection w) (Some (target_id tgt)))]"
  using assms
  by (simp_all add: launcher_p0_eq then_promise_def createSession_p0_fresh createSession_p0_always
      nth_append)

lemma launcher_p0_stale:
  assumes "\<not> fresh_p0 (target_id tgt) w"
  shows "calls (the_world (buildVSSessionLauncher_p0 parentSession tgt cfg w)) =
     calls w @ [CreateNewSession (length (debugSessions w)) (cfg(''sessionId'' \<mapsto> JString (target_id tgt)))
                  \<lparr>strategy_rootConnection_p0 = rootConnection w,
                   strategy_sessionId_p0 = Some (target_id tgt),
                   deferredChildConnection = length (promises w)\<rparr>]"
    and "promises (the_world (buildVSSessionLauncher_p0 parentSession tgt cfg w)) =
     promises w @ [Pending []]"
    and "jobs (the_world (buildVSSessionLauncher_p0 parentSession tgt cfg w)) = jobs w"
    and "sessions (the_world (buildVSSessionLauncher_p0 parentSession tgt cfg w)) = sessions w"
    and "children (the_world (buildVSSessionLauncher_p0 parentSession tgt cfg w)) = children w"
  using assms
  by (simp_all add: launcher_p0_eq createSession_p0_stale createSession_p0_always)

lemma new_world_fields:
  "rootConnection (new_world r) = r" "mockProcessId (new_world r) = 1"
  "sessions (new_world r) = Map.empty" "children (new_world r) = Map.empty"
  "debugSessions (new_world r) = []" "promises (new_world r) = []"
  "jobs (new_world r) = []" "calls (new_world r) = []"
  by (simp_all add: new_world_def)

lemma fresh_new_world: "fresh sid (new_world r)" "fresh_p0 i (new_world r)"
  by (simp_all add: fresh_def fresh_p0_def new_world_def)

lemma VSSessionManager_eq:
  "VSSessionManager r =
     Inr (init r (the_world (createSession None ''rootSession'' Map.empty (new_world r))))"
  "VSSessionManager_p0 r =
     Inr (init r (the_world (createSession_p0 [] ''rootSession'' Map.empty (new_world r))))"
  unfolding VSSessionManager_def VSSessionManager_p0_def
  by (simp_all add: returns_case [OF createSession_returns [OF fresh_new_world(1)]]
      returns_case [OF createSession_p0_returns [OF fresh_new_world(2)]])

lemma VSSessionManager_fields:
  "calls (the_world (VSSessionManager r)) =
     [CreateNewSession 0 Map.empty \<lparr>strategy_rootConnection = r, strategy_sessionId = None\<rparr>,
      Resolve 0 (ChildConnection r None), Init r]"
  "promises (the_world (VSSessionManager r)) = [Fulfilled (ChildConnection r None)]"
  "debugSessions (the_world (VSSessionManager r)) =
     [\<lparr>session_id = ''root'', session_name = ''rootSession'', childConnection = 0,
       session_mockProcessId = 1\<rparr>]"
  "mockProcessId (the_world (VSSessionManager r)) = 2"
  "jobs (the_world (VSSessionManager r)) = []"
  "rootConnection (the_world (VSSessionManager r)) = r"
  "sessions (the_world (VSSessionManager r)) =
     [''root'' \<mapsto> \<lparr>debugSession = 0, connection = ChildConnection r None\<rparr>]"
  "children (the_world (VSSessionManager r)) = [[] \<mapsto> ChildConnection r None]"
  by (simp_all add: VSSessionManager_eq init_def createSession_fresh [OF fresh_new_world(1)]
      createSession_always new_world_fields or_root_def identifier_of_def js_increment_def)

lemma VSSessionManager_p0_fields:
  "calls (the_world (VSSessionManager_p0 r)) =
     [CreateNewSession 0 Map.empty
        \<lparr>strategy_rootConnection_p0 = r, strategy_sessionId_p0 = Some [],
         deferredChildConnection = 0\<rparr>,
      Resolve 0 (ChildConnection r (Some [])), Init r]"
  "promises (the_world (VSSessionManager_p0 r)) = [Fulfilled (ChildConnection r (Some []))]"
  "debugSessions (the_world (VSSessionManager_p0 r)) =
     [\<lparr>session_id = [], session_name = ''rootSession'', childConnection = 0,
       session_mockProcessId = 1\<rparr>]"
  "mockProcessId (the_world (VSSessionManager_p0 r)) = 2"
  "jobs (the_world (VSSessionManager_p0 r)) = []"
  "rootConnection (the_world (VSSessionManager_p0 r)) = r"
  "sessions (the_world (VSSessionManager_p0 r)) = [[] \<mapsto> \<lparr>debugSession = 0, connection = 0\<rparr>]"
  "children (the_world (VSSessionManager_p0 r)) = [[] \<mapsto> ChildConnection r (Some [])]"
  by (simp_all add: VSSessionManager_eq init_def createSession_p0_fresh [OF fresh_new_world(2)]
      createSession_p0_always new_world_fields js_increment_def)


section \<open>Connections of the registered sessions in \<^verbatim>\<open>part_000\<close>\<close>

lemma then_promise_keeps_Fulfilled:
  "p < length (promises v) \<Longrightarrow> promises v ! p = Fulfilled c \<Longrightarrow>
   promises (then_promise q cb v) ! p = Fulfilled c"
  by (auto simp: then_promise_def nth_list_update split: promise.split)

lemma connected_then_promise: "connected v \<Longrightarrow> connected (then_promise q cb v)"
  unfolding connected_def
  by (metis then_promise_fields(4,7) then_promise_keeps_Fulfilled)

lemma connected_createSession_p0: "connected v \<Longrightarrow> connected (the_world (createSession_p0 i n cfg v))"
proof (cases "fresh_p0 i v")
  case True
  assume "connected v"
  then show ?thesis
    by (auto simp: connected_def createSession_p0_fresh [OF True] nth_append less_Suc_eq)
next
  case False
  assume "connected v"
  then show ?thesis
    by (auto simp: connected_def createSession_p0_stale [OF False] nth_append less_Suc_eq)
qed

lemma connected_step_p0: "connected v \<Longrightarrow> connected (step_p0 x v)"
proof (cases x)
  case (Launch parentSession tgt cfg)
  assume "connected v"
  then show ?thesis
    unfolding Launch step_p0.simps launcher_p0_eq
    by (simp add: connected_then_promise connected_createSession_p0)
next
  case (SetName this newName)
  assume "connected v"
  then show ?thesis
    unfolding SetName step_p0.simps set_name_p0_def Let_def
    by (simp add: connected_then_promise)
next
  case RunJobs
  assume "connected v"
  then show ?thesis
    unfolding RunJobs step_p0.simps
    by (simp add: connected_def runJobs_heap)
qed

lemma connected_run_p0: "connected v \<Longrightarrow> connected (run_p0 ops v)"
  unfolding run_p0_def by (induction ops arbitrary: v) (simp_all add: connected_step_p0)

lemma connected_VSSessionManager_p0: "connected (the_world (VSSessionManager_p0 r))"
  by (simp add: connected_def VSSessionManager_p0_fields)

lemma registered_parent_connected:
  assumes "sessions (run_p0 ops (the_world (VSSessionManager_p0 r))) k = Some parentSession"
  shows "connection parentSession < length (promises (run_p0 ops (the_world (VSSessionManager_p0 r)))) \<and>
    (\<exists>c. promises (run_p0 ops (the_world (VSSessionManager_p0 r))) ! connection parentSession =
       Fulfilled c)"
  using connected_run_p0 [OF connected_VSSessionManager_p0, of ops r] assms
  unfolding connected_def by blast

section \<open>The Session Launch Protocol message\<close>

lemma fresh_child:
  "fresh (Some (target_id \<lparr>target_id = ''child-1'', target_name = ''worker''\<rparr>))
     (the_world (VSSessionManager 7))"
  "fresh_p0 (target_id \<lparr>target_id = ''child-1'', target_name = ''worker''\<rparr>)
     (the_world (VSSessionManager_p0 7))"
  by (simp_all add: fresh_def fresh_p0_def VSSessionManager_fields VSSessionManager_p0_fields
      or_root_def identifier_of_def)

lemma manager_with_child_fields:
  "calls manager_with_child =
     [CreateNewSession 0 Map.empty \<lparr>strategy_rootConnection = 7, strategy_sessionId = None\<rparr>,
      Resolve 0 (ChildConnection 7 None), Init 7,
      CreateNewSession 1 [''sessionId'' \<mapsto> JString ''child-1'']
        \<lparr>strategy_rootConnection = 7, strategy_sessionId = Some ''child-1''\<rparr>,
      Resolve 1 (ChildConnection 7 (Some ''child-1'')),
      Send (ChildConnection 7 None) (attachedChildSession [''sessionId'' \<mapsto> JString ''child-1''])]"
  "promises manager_with_child =
     [Fulfilled (ChildConnection 7 None), Fulfilled (ChildConnection 7 (Some ''child-1''))]"
  "length (debugSessions manager_with_child) = 2"
  "rootConnection manager_with_child = 7"
  "jobs manager_with_child = []"
  "\<not> fresh (Some ''child-1'') manager_with_child"
  unfolding manager_with_child_def
  by (simp_all add: launcher_fresh [OF fresh_child(1)] launcher_always VSSessionManager_fields
      fresh_def identifier_of_def)


lemma launcher_p0_sends:
  assumes "fresh_p0 (target_id tgt) v"
    and "connection parentSession < length (promises v)"
    and "promises v ! connection parentSession = Fulfilled c"
  shows "filter is_Send (calls (runJobs (the_world (buildVSSessionLauncher_p0 parentSession tgt cfg v)))) =
      filter is_Send (calls (runJobs v)) @
      [Send c (attachedChildSession (cfg(''sessionId'' \<mapsto> JString (target_id tgt))))]"
  using assms
  by (simp add: launcher_p0_fresh launcher_p0_fresh_jobs calls_runJobs Send_emitted_snoc)

text \<open>
  C1, as the code has it. A child launch whose session creation succeeds sends exactly
  one message on the parent session's connection, of the shape
  \<^verbatim>\<open>{ seq: 0, type: "request", command: "attachedChildSession", arguments: { config } }\<close>
  where \<^verbatim>\<open>config\<close> is the merged child configuration with the injected \<^verbatim>\<open>sessionId\<close>;
  a launch whose session creation fails throws before the message is written and
  sends none. Session creation succeeds when the identifier is fresh.
  In \<^verbatim>\<open>flatSessionLauncher.ts\<close> the message is sent inside the callback and no job is
  queued. In \<^verbatim>\<open>part_000\<close> the callback itself sends nothing; the message is sent by the
  job attached to the parent's connection promise, once the event loop has run, on the
  connection that promise is fulfilled with; and the connection promise of every
  Session registered with a manager, whatever the manager's history, is fulfilled.
\<close>

theorem launcher_sends_one_message:
  "(case buildVSSessionLauncher parentSession tgt cfg w of
      Inr w' \<Rightarrow>
        filter is_Send (calls w') =
          filter is_Send (calls w) @
          [Send (connection parentSession)
             \<lparr>seq = 0, command = ''attachedChildSession'', type = ''request'',
              arguments = \<lparr>config = cfg(''sessionId'' \<mapsto> JString (target_id tgt))\<rparr>\<rparr>] \<and>
        jobs w' = jobs w
    | Inl (e, w') \<Rightarrow>
        filter is_Send (calls w') = filter is_Send (calls w) \<and> jobs w' = jobs w)
   \<and> (fresh (Some (target_id tgt)) w \<longrightarrow>
        (\<exists>w'. buildVSSessionLauncher parentSession tgt cfg w = Inr w'))
   \<and> (case buildVSSessionLauncher_p0 parent' tgt cfg v of
        Inr v' \<Rightarrow>
          filter is_Send (calls v') = filter is_Send (calls v) \<and>
          (connection parent' < length (promises v) \<and>
           promises v ! connection parent' = Fulfilled c \<longrightarrow>
             filter is_Send (calls (runJobs v')) =
               filter is_Send (calls (runJobs v)) @
               [Send c
                  \<lparr>seq = 0, command = ''attachedChildSession'', type = ''request'',
                   arguments = \<lparr>config = cfg(''sessionId'' \<mapsto> JString (target_id tgt))\<rparr>\<rparr>])
      | Inl (e, v') \<Rightarrow>
          filter is_Send (calls (runJobs v')) = filter is_Send (calls (runJobs v)))
   \<and> (fresh_p0 (target_id tgt) v \<longrightarrow>
        (\<exists>v'. buildVSSessionLauncher_p0 parent' tgt cfg v = Inr v'))
   \<and> (sessions (run_p0 ops (the_world (VSSessionManager_p0 r))) k = Some registered \<longrightarrow>
        connection registered < length (promises (run_p0 ops (the_world (VSSessionManager_p0 r)))) \<and>
        (\<exists>c'. promises (run_p0 ops (the_world (VSSessionManager_p0 r))) ! connection registered =
           Fulfilled c'))"
proof -
  let ?m = "\<lparr>seq = 0, command = ''attachedChildSession'', type = ''request'',
             arguments = \<lparr>config = cfg(''sessionId'' \<mapsto> JString (target_id tgt))\<rparr>\<rparr>"
  have m: "attachedChildSession (cfg(''sessionId'' \<mapsto> JString (target_id tgt))) = ?m"
    by (simp add: attachedChildSession_def)
  have a: "case buildVSSessionLauncher parentSession tgt cfg w of
      Inr w' \<Rightarrow>
        filter is_Send (calls w') =
          filter is_Send (calls w) @ [Send (connection parentSession) ?m] \<and> jobs w' = jobs w
    | Inl (e, w') \<Rightarrow>
        filter is_Send (calls w') = filter is_Send (calls w) \<and> jobs w' = jobs w"
  proof (cases "fresh (Some (target_id tgt)) w")
    case True
    then show ?thesis
      by (simp add: launcher_eq conn_send_def createSession_fresh createSession_always m)
  next
    case False
    then show ?thesis
      by (simp add: launcher_eq createSession_stale createSession_always)
  qed
  have b: "fresh (Some (target_id tgt)) w \<longrightarrow>
        (\<exists>w'. buildVSSessionLauncher parentSession tgt cfg w = Inr w')"
    by (simp add: launcher_eq)
  have c: "case buildVSSessionLauncher_p0 parent' tgt cfg v of
        Inr v' \<Rightarrow>
          filter is_Send (calls v') = filter is_Send (calls v) \<and>
          (connection parent' < length (promises v) \<and>
           promises v ! connection parent' = Fulfilled c \<longrightarrow>
             filter is_Send (calls (runJobs v')) =
               filter is_Send (calls (runJobs v)) @ [Send c ?m])
      | Inl (e, v') \<Rightarrow>
          filter is_Send (calls (runJobs v')) = filter is_Send (calls (runJobs v))"
  proof (cases "fresh_p0 (target_id tgt) v")
    case True
    have "the_world (buildVSSessionLauncher_p0 parent' tgt cfg v) =
        then_promise (connection parent')
          (SendMessage (attachedChildSession (cfg(''sessionId'' \<mapsto> JString (target_id tgt)))))
          (the_world (createSession_p0 (target_id tgt) (target_name tgt)
             (cfg(''sessionId'' \<mapsto> JString (target_id tgt))) v))"
      by (simp add: launcher_p0_eq True)
    then show ?thesis
      using launcher_p0_sends [OF True, of parent' c cfg] launcher_p0_fresh(1) [OF True, of parent' cfg]
      by (simp add: launcher_p0_eq True m)
  next
    case False
    then show ?thesis
      using launcher_p0_stale(1,3) [OF False, of parent' cfg]
      by (simp add: launcher_p0_eq calls_runJobs)
  qed
  have d: "fresh_p0 (target_id tgt) v \<longrightarrow>
        (\<exists>v'. buildVSSessionLauncher_p0 parent' tgt cfg v = Inr v')"
    by (simp add: launcher_p0_eq)
  from a b c d registered_parent_connected [of ops r k registered] show ?thesis
    by blast
qed


theorem launcher_sends_one_message_witness:
  "fresh (Some (target_id \<lparr>target_id = ''child-1'', target_name = ''worker''\<rparr>))
     (the_world (VSSessionManager 7)) \<and>
   fresh_p0 (target_id \<lparr>target_id = ''child-1'', target_name = ''worker''\<rparr>)
     (the_world (VSSessionManager_p0 7)) \<and>
   (0::nat) < length (promises (the_world (VSSessionManager_p0 7))) \<and>
   promises (the_world (VSSessionManager_p0 7)) ! 0 = Fulfilled (ChildConnection 7 (Some [])) \<and>
   sessions (run_p0 [] (the_world (VSSessionManager_p0 7))) [] =
     Some \<lparr>debugSession = 0, connection = 0\<rparr> \<and>
   buildVSSessionLauncher \<lparr>debugSession = 0, connection = ChildConnection 7 None\<rparr>
       \<lparr>target_id = ''child-1'', target_name = ''worker''\<rparr> Map.empty
       (the_world (VSSessionManager 7)) = Inr manager_with_child \<and>
   filter is_Send (calls manager_with_child) =
     [Send (ChildConnection 7 None)
        \<lparr>seq = 0, command = ''attachedChildSession'', type = ''request'',
         arguments = \<lparr>config = [''sessionId'' \<mapsto> JString ''child-1'']\<rparr>\<rparr>] \<and>
   buildVSSessionLauncher_p0 \<lparr>debugSession = 0, connection = 0\<rparr>
       \<lparr>target_id = ''child-1'', target_name = ''worker''\<rparr> Map.empty
       (the_world (VSSessionManager_p0 7)) = Inr manager_with_child_p0 \<and>
   filter is_Send (calls (runJobs manager_with_child_p0)) =
     [Send (ChildConnection 7 (Some []))
        \<lparr>seq = 0, command = ''attachedChildSession'', type = ''request'',
         arguments = \<lparr>config = [''sessionId'' \<mapsto> JString ''child-1'']\<rparr>\<rparr>]"
proof -
  let ?w = "the_world (VSSessionManager 7)"
  let ?v = "the_world (VSSessionManager_p0 7)"
  let ?root = "\<lparr>debugSession = 0, connection = ChildConnection 7 None\<rparr>"
  let ?root_p0 = "\<lparr>debugSession = 0, connection = 0::nat\<rparr>"
  let ?child = "\<lparr>target_id = ''child-1'', target_name = ''worker''\<rparr>"
  note t = launcher_sends_one_message [where parentSession = ?root and tgt = ?child
      and cfg = Map.empty and w = ?w and parent' = ?root_p0 and v = ?v
      and c = "ChildConnection 7 (Some [])" and ops = "[]" and r = 7 and k = "[]"
      and registered = ?root_p0]
  have h: "(0::nat) < length (promises ?v) \<and> promises ?v ! 0 = Fulfilled (ChildConnection 7 (Some []))"
    by (simp add: VSSessionManager_p0_fields)
  have reg: "sessions (run_p0 [] ?v) [] = Some ?root_p0"
    by (simp add: run_p0_def VSSessionManager_p0_fields)
  have quiet: "filter is_Send (calls ?v) = []" "filter is_Send (calls (runJobs ?v)) = []"
      "filter is_Send (calls ?w) = []"
    by (simp_all add: calls_runJobs VSSessionManager_p0_fields VSSessionManager_fields)
  from t fresh_child(1) obtain w' where a: "buildVSSessionLauncher ?root ?child Map.empty ?w = Inr w'"
    by blast
  then have a': "w' = manager_with_child"
    by (simp add: manager_with_child_def)
  from t fresh_child(2) obtain v' where b: "buildVSSessionLauncher_p0 ?root_p0 ?child Map.empty ?v = Inr v'"
    by blast
  then have b': "v' = manager_with_child_p0"
    by (simp add: manager_with_child_p0_def)
  from t have "filter is_Send (calls w') =
      [Send (ChildConnection 7 None)
        \<lparr>seq = 0, command = ''attachedChildSession'', type = ''request'',
         arguments = \<lparr>config = [''sessionId'' \<mapsto> JString ''child-1'']\<rparr>\<rparr>]"
    by (simp add: a quiet)
  moreover from t h have "filter is_Send (calls (runJobs v')) =
      [Send (ChildConnection 7 (Some []))
        \<lparr>seq = 0, command = ''attachedChildSession'', type = ''request'',
         arguments = \<lparr>config = [''sessionId'' \<mapsto> JString ''child-1'']\<rparr>\<rparr>]"
    by (simp add: b quiet)
  ultimately show ?thesis
    using fresh_child h reg a b by (simp add: a' b')
qed

text \<open>
  C1, as stated, fails for a launch that repeats an identifier. The manager that has
  launched \<open>''child-1''\<close> is asked to launch \<open>''child-1''\<close> again: the registration is
  a duplicate, \<^verbatim>\<open>createSession\<close> throws, and the calls of this launch contain no message.
\<close>

theorem aborted_launch_counterexample:
  "isl (buildVSSessionLauncher \<lparr>debugSession = 0, connection = ChildConnection 7 None\<rparr>
       \<lparr>target_id = ''child-1'', target_name = ''worker''\<rparr> Map.empty manager_with_child) \<and>
   filter is_Send (drop (length (calls manager_with_child))
     (calls (the_world (buildVSSessionLauncher \<lparr>debugSession = 0, connection = ChildConnection 7 None\<rparr>
       \<lparr>target_id = ''child-1'', target_name = ''worker''\<rparr> Map.empty manager_with_child)))) = []"
proof -
  have stale: "\<not> fresh (Some (target_id \<lparr>target_id = ''child-1'', target_name = ''worker''\<rparr>))
      manager_with_child"
    using manager_with_child_fields(6) by simp
  show ?thesis
    using manager_with_child_fields(6)
    by (simp add: launcher_stale [OF stale]) (simp add: launcher_eq)
qed


section \<open>Numbering of the sessions\<close>

lemma numbered_same:
  "numbered w \<Longrightarrow> map session_mockProcessId (debugSessions w') = map session_mockProcessId (debugSessions w) \<Longrightarrow>
   mockProcessId w' = mockProcessId w \<Longrightarrow> numbered w'"
  using map_eq_imp_length_eq by (fastforce simp: numbered_def)

lemma pid_set_name:
  "map session_mockProcessId (debugSessions (set_name this n w)) =
   map session_mockProcessId (debugSessions w)"
  by (cases "this < length (debugSessions w)") (simp_all add: set_name_fields map_update list_update_same_conv list_update_beyond)

lemma count_step:
  "length (debugSessions (step x w)) = length (debugSessions w) + (if is_Launch x then 1 else 0)"
  by (cases x) (simp_all add: launcher_always set_name_fields runJobs_heap)

lemma count_step_p0:
  "length (debugSessions (step_p0 x w)) = length (debugSessions w) + (if is_Launch x then 1 else 0)"
  by (cases x) (simp_all add: launcher_p0_always set_name_p0_fields runJobs_heap)

lemma numbered_step:
  assumes "numbered w"
    and "length (debugSessions w) + (if is_Launch x then 1 else 0) \<le> 2 ^ 53"
  shows "numbered (step x w)"
proof (cases x)
  case (Launch parentSession tgt cfg)
  have "length (debugSessions w) < 2 ^ 53"
    using assms(2) Launch by simp
  with assms(1) show ?thesis
    unfolding Launch step.simps
    by (auto simp: numbered_def launcher_always js_increment_def min_def)
next
  case (SetName this newName)
  show ?thesis
    unfolding SetName step.simps
    using numbered_same [OF assms(1), of "set_name this newName w"] assms(1)
    by (simp add: pid_set_name set_name_fields(2))
next
  case RunJobs
  from assms(1) show ?thesis
    unfolding RunJobs step.simps
    by (rule numbered_same) (simp_all add: runJobs_heap)
qed

lemma numbered_step_p0:
  assumes "numbered w"
    and "length (debugSessions w) + (if is_Launch x then 1 else 0) \<le> 2 ^ 53"
  shows "numbered (step_p0 x w)"
proof (cases x)
  case (Launch parentSession tgt cfg)
  have "length (debugSessions w) < 2 ^ 53"
    using assms(2) Launch by simp
  with assms(1) show ?thesis
    unfolding Launch step_p0.simps
    by (auto simp: numbered_def launcher_p0_always js_increment_def min_def)
next
  case (SetName this newName)
  show ?thesis
    unfolding SetName step_p0.simps
    using numbered_same [OF assms(1), of "set_name_p0 this newName w"] assms(1)
    by (simp add: set_name_p0_fields)
next
  case RunJobs
  from assms(1) show ?thesis
    unfolding RunJobs step_p0.simps
    by (rule numbered_same) (simp_all add: runJobs_heap)
qed

lemma numbered_run:
  "numbered w \<Longrightarrow> length (debugSessions w) + length (filter is_Launch ops) \<le> 2 ^ 53 \<Longrightarrow>
   numbered (run ops w) \<and>
   length (debugSessions (run ops w)) = length (debugSessions w) + length (filter is_Launch ops)"
  unfolding run_def
proof (induction ops arbitrary: w)
  case Nil
  then show ?case by simp
next
  case (Cons x ops)
  have a: "numbered (step x w)"
    using Cons.prems by (intro numbered_step) (simp_all split: if_splits)
  have b: "length (debugSessions (step x w)) + length (filter is_Launch ops) \<le> 2 ^ 53"
    using Cons.prems(2) by (simp add: count_step split: if_splits)
  from Cons.IH [OF a b] show ?case
    by (simp add: count_step)
qed

lemma numbered_run_p0:
  "numbered w \<Longrightarrow> length (debugSessions w) + length (filter is_Launch ops) \<le> 2 ^ 53 \<Longrightarrow>
   numbered (run_p0 ops w) \<and>
   length (debugSessions (run_p0 ops w)) = length (debugSessions w) + length (filter is_Launch ops)"
  unfolding run_p0_def
proof (induction ops arbitrary: w)
  case Nil
  then show ?case by simp
next
  case (Cons x ops)
  have a: "numbered (step_p0 x w)"
    using Cons.prems by (intro numbered_step_p0) (simp_all split: if_splits)
  have b: "length (debugSessions (step_p0 x w)) + length (filter is_Launch ops) \<le> 2 ^ 53"
    using Cons.prems(2) by (simp add: count_step_p0 split: if_splits)
  from Cons.IH [OF a b] show ?case
    by (simp add: count_step_p0)
qed

lemma numbered_VSSessionManager:
  "numbered (the_world (VSSessionManager r))" "numbered (the_world (VSSessionManager_p0 r))"
  by (simp_all add: numbered_def VSSessionManager_fields VSSessionManager_p0_fields)

text \<open>
  C9. Within one manager the session objects carry distinct surrogate identifiers, as
  long as the counter is exact: in every history of a manager (launches, name
  assignments, runs of the event loop, in any order) that constructs at most \<open>2^53\<close>
  session objects, the identifiers of the session objects, read in the order of their
  construction, are \<open>1, 2, 3, \<dots>\<close>, one per object, the root session having \<open>1\<close>.
  Every call of \<^verbatim>\<open>createSession\<close> constructs one session object, also a call that then
  throws. Every call of \<^verbatim>\<open>createSession\<close> applies \<^verbatim>\<open>++\<close> to the counter, which increases
  it by one while it is below \<open>2^53\<close>. This holds for both files.
\<close>

theorem mockProcessId_counts_sessions:
  "(1 + length (filter is_Launch ops) \<le> 2 ^ 53 \<longrightarrow>
      map session_mockProcessId (debugSessions (run ops (the_world (VSSessionManager r)))) =
        [1 ..< 2 + length (filter is_Launch ops)] \<and>
      distinct (map session_mockProcessId (debugSessions (run ops (the_world (VSSessionManager r))))))
   \<and> mockProcessId (the_world (createSession sessionId n cfg w)) = js_increment (mockProcessId w)
   \<and> (mockProcessId w < 2 ^ 53 \<longrightarrow>
        mockProcessId (the_world (createSession sessionId n cfg w)) = mockProcessId w + 1)
   \<and> (1 + length (filter is_Launch ops') \<le> 2 ^ 53 \<longrightarrow>
      map session_mockProcessId (debugSessions (run_p0 ops' (the_world (VSSessionManager_p0 r)))) =
        [1 ..< 2 + length (filter is_Launch ops')] \<and>
      distinct (map session_mockProcessId (debugSessions (run_p0 ops' (the_world (VSSessionManager_p0 r))))))
   \<and> mockProcessId (the_world (createSession_p0 sessionId' n cfg v)) = js_increment (mockProcessId v)
   \<and> (mockProcessId v < 2 ^ 53 \<longrightarrow>
        mockProcessId (the_world (createSession_p0 sessionId' n cfg v)) = mockProcessId v + 1)"
proof -
  have A: "map session_mockProcessId (debugSessions (run ops (the_world (VSSessionManager r)))) =
     [1 ..< 2 + length (filter is_Launch ops)]"
    if "1 + length (filter is_Launch ops) \<le> 2 ^ 53"
    using numbered_run [OF numbered_VSSessionManager(1), of r ops] that
    by (simp add: numbered_def VSSessionManager_fields)
  have B: "map session_mockProcessId (debugSessions (run_p0 ops' (the_world (VSSessionManager_p0 r)))) =
     [1 ..< 2 + length (filter is_Launch ops')]"
    if "1 + length (filter is_Launch ops') \<le> 2 ^ 53"
    using numbered_run_p0 [OF numbered_VSSessionManager(2), of r ops'] that
    by (simp add: numbered_def VSSessionManager_p0_fields)
  show ?thesis
    using A B by (simp add: createSession_always createSession_p0_always js_increment_def)
qed

theorem mockProcessId_counts_sessions_witness:
  "(1::nat) + length (filter is_Launch
       [Launch \<lparr>debugSession = 0, connection = ChildConnection 7 None\<rparr>
          \<lparr>target_id = ''child-1'', target_name = ''worker''\<rparr> Map.empty]) \<le> 2 ^ 53 \<and>
   mockProcessId (the_world (VSSessionManager 7)) < 2 ^ 53 \<and>
   map session_mockProcessId (debugSessions (run
       [Launch \<lparr>debugSession = 0, connection = ChildConnection 7 None\<rparr>
          \<lparr>target_id = ''child-1'', target_name = ''worker''\<rparr> Map.empty]
       (the_world (VSSessionManager 7)))) = [1, 2] \<and>
   mockProcessId (the_world (createSession (Some ''child-1'') ''worker'' Map.empty
       (the_world (VSSessionManager 7)))) = 3"
proof -
  let ?ops = "[Launch \<lparr>debugSession = 0, connection = ChildConnection 7 None\<rparr>
          \<lparr>target_id = ''child-1'', target_name = ''worker''\<rparr> Map.empty]"
  have h: "(1::nat) + length (filter is_Launch ?ops) \<le> 2 ^ 53"
      "mockProcessId (the_world (VSSessionManager 7)) < 2 ^ 53"
    by (simp_all add: VSSessionManager_fields)
  have u: "[Suc 0 ..< 3] = [Suc 0, 2]"
    by (simp add: upt_rec)
  note t = mockProcessId_counts_sessions [where ops = ?ops and r = 7 and sessionId = "Some ''child-1''"
      and n = "''worker''" and cfg = Map.empty and w = "the_world (VSSessionManager 7)"]
  from t h(1) have "map session_mockProcessId (debugSessions (run ?ops (the_world (VSSessionManager 7)))) =
      [1 ..< 2 + length (filter is_Launch ?ops)]"
    by blast
  moreover from t h(2) have "mockProcessId (the_world (createSession (Some ''child-1'') ''worker'' Map.empty
       (the_world (VSSessionManager 7)))) = mockProcessId (the_world (VSSessionManager 7)) + 1"
    by blast
  ultimately show ?thesis
    using h by (simp add: u VSSessionManager_fields)
qed

section \<open>The name of a session\<close>

lemma unresolved_session_fields:
  "debugSessions (unresolved_session r i n) =
     [\<lparr>session_id = i, session_name = n, childConnection = 0, session_mockProcessId = 1\<rparr>]"
  "promises (unresolved_session r i n) = [Pending []]"
  "jobs (unresolved_session r i n) = []"
  "calls (unresolved_session r i n) = []"
  by (simp_all add: unresolved_session_def getDeferred_def new_VSDebugSession_def new_world_def)

lemma session_set_name:
  "childConnection (debugSessions (set_name this n w) ! this) = childConnection (debugSessions w ! this)"
  "session_mockProcessId (debugSessions (set_name this n w) ! this) =
   session_mockProcessId (debugSessions w ! this)"
  by (cases "this < length (debugSessions w)"; simp add: set_name_fields list_update_beyond)+

lemma fold_set_name_Pending:
  assumes "childConnection (debugSessions w ! this) < length (promises w)"
    and "promises w ! childConnection (debugSessions w ! this) = Pending cbs"
  shows "promises (fold (set_name this) ns w) =
      (promises w)[childConnection (debugSessions w ! this) :=
         Pending (cbs @ map (GetDap (session_mockProcessId (debugSessions w ! this))) ns)] \<and>
    jobs (fold (set_name this) ns w) = jobs w \<and>
    calls (fold (set_name this) ns w) = calls w"
  using assms
proof (induction ns arbitrary: w cbs)
  case Nil
  have "(promises w)[childConnection (debugSessions w ! this) := Pending cbs] = promises w"
    using Nil(2) list_update_id [of "promises w" "childConnection (debugSessions w ! this)"]
    by simp
  then show ?case
    by simp
next
  case (Cons n ns)
  let ?w = "set_name this n w"
  let ?p = "childConnection (debugSessions w ! this)"
  let ?pid = "session_mockProcessId (debugSessions w ! this)"
  have p: "promises ?w = (promises w)[?p := Pending (cbs @ [GetDap ?pid n])]"
    and j: "jobs ?w = jobs w"
    using Cons.prems by (simp_all add: set_name_Pending)
  have "promises ?w ! ?p = Pending (cbs @ [GetDap ?pid n])"
    using Cons.prems(1) by (simp add: p)
  moreover have "?p < length (promises ?w)"
    using Cons.prems(1) by (simp add: p)
  ultimately have
    "promises (fold (set_name this) ns ?w) =
       (promises ?w)[?p := Pending ((cbs @ [GetDap ?pid n]) @ map (GetDap ?pid) ns)] \<and>
     jobs (fold (set_name this) ns ?w) = jobs ?w \<and>
     calls (fold (set_name this) ns ?w) = calls ?w"
    using Cons.IH [of ?w "cbs @ [GetDap ?pid n]"] by (simp add: session_set_name)
  then show ?case
    by (simp add: p j set_name_fields)
qed

lemma fold_set_name_p0_Pending:
  assumes "childConnection (debugSessions w ! this) < length (promises w)"
    and "promises w ! childConnection (debugSessions w ! this) = Pending cbs"
  shows "promises (fold (set_name_p0 this) ns w) =
      (promises w)[childConnection (debugSessions w ! this) :=
         Pending (cbs @ map (GetDap (session_mockProcessId (debugSessions w ! this))) ns)] \<and>
    jobs (fold (set_name_p0 this) ns w) = jobs w \<and>
    calls (fold (set_name_p0 this) ns w) = calls w"
  using assms
proof (induction ns arbitrary: w cbs)
  case Nil
  have "(promises w)[childConnection (debugSessions w ! this) := Pending cbs] = promises w"
    using Nil(2) list_update_id [of "promises w" "childConnection (debugSessions w ! this)"]
    by simp
  then show ?case
    by simp
next
  case (Cons n ns)
  let ?w = "set_name_p0 this n w"
  let ?p = "childConnection (debugSessions w ! this)"
  let ?pid = "session_mockProcessId (debugSessions w ! this)"
  have p: "promises ?w = (promises w)[?p := Pending (cbs @ [GetDap ?pid n])]"
    and j: "jobs ?w = jobs w"
    using Cons.prems by (simp_all add: set_name_p0_Pending)
  have "promises ?w ! ?p = Pending (cbs @ [GetDap ?pid n])"
    using Cons.prems(1) by (simp add: p)
  moreover have "?p < length (promises ?w)"
    using Cons.prems(1) by (simp add: p)
  ultimately have
    "promises (fold (set_name_p0 this) ns ?w) =
       (promises ?w)[?p := Pending ((cbs @ [GetDap ?pid n]) @ map (GetDap ?pid) ns)] \<and>
     jobs (fold (set_name_p0 this) ns ?w) = jobs ?w \<and>
     calls (fold (set_name_p0 this) ns ?w) = calls ?w"
    using Cons.IH [of ?w "cbs @ [GetDap ?pid n]"] by (simp add: set_name_p0_fields)
  then show ?case
    by (simp add: p j set_name_p0_fields)
qed

lemma notify_after_resolve:
  assumes "p < length (promises v)"
    and "promises v ! p = Pending (map (GetDap pid) ns)"
    and "jobs v = []"
  shows "calls (runJobs (resolve p c v)) = calls v @ Resolve p c # map (Process c pid) ns"
proof -
  have "jobs (resolve p c v) = map (\<lambda>n. (GetDap pid n, c)) ns"
    using assms by (simp add: resolve_Pending comp_def)
  then have "emitted (jobs (resolve p c v)) = map (Process c pid) ns"
    using emitted_GetDaps [of "[]" pid c ns] by simp
  then show ?thesis
    by (simp add: calls_runJobs resolve_fields)
qed

lemma get_name_set_name:
  "this < length (debugSessions w) \<Longrightarrow> get_name this (set_name this newName w) = newName"
  by (simp add: get_name_def set_name_fields)

lemma get_name_set_name_p0: "get_name this (set_name_p0 this newName w) = get_name this w"
  by (simp add: get_name_def set_name_p0_fields)

text \<open>
  C3, as the code has it. When the name of a session is assigned the names \<open>ns\<close>, one
  after the other, while its connection promise is still pending (no reaction attached
  before, no job waiting), then resolving the promise with \<open>c\<close> and running the event
  loop emits one \<^verbatim>\<open>process\<close> notification per assignment, in the order of the assignments,
  each carrying the session's \<^verbatim>\<open>mockProcessId\<close> and the name assigned by that assignment;
  the last one carries the final name. This holds for the setters of both files.
\<close>

theorem name_assignments_notify_each:
  assumes "this < length (debugSessions w)"
    and "childConnection (debugSessions w ! this) < length (promises w)"
    and "promises w ! childConnection (debugSessions w ! this) = Pending []"
    and "jobs w = []"
  shows
    "calls (runJobs (resolve (childConnection (debugSessions w ! this)) c (fold (set_name this) ns w))) =
       calls w @ Resolve (childConnection (debugSessions w ! this)) c #
         map (Process c (session_mockProcessId (debugSessions w ! this))) ns
     \<and>
     calls (runJobs (resolve (childConnection (debugSessions w ! this)) c (fold (set_name_p0 this) ns w))) =
       calls w @ Resolve (childConnection (debugSessions w ! this)) c #
         map (Process c (session_mockProcessId (debugSessions w ! this))) ns"
proof -
  let ?p = "childConnection (debugSessions w ! this)"
  let ?pid = "session_mockProcessId (debugSessions w ! this)"
  let ?a = "fold (set_name this) ns w"
  let ?b = "fold (set_name_p0 this) ns w"
  have a: "promises ?a = (promises w)[?p := Pending (map (GetDap ?pid) ns)]"
      "jobs ?a = []" "calls ?a = calls w"
    using fold_set_name_Pending [OF assms(2,3), of ns] assms(4) by simp_all
  have b: "promises ?b = (promises w)[?p := Pending (map (GetDap ?pid) ns)]"
      "jobs ?b = []" "calls ?b = calls w"
    using fold_set_name_p0_Pending [OF assms(2,3), of ns] assms(4) by simp_all
  have "calls (runJobs (resolve ?p c ?a)) = calls ?a @ Resolve ?p c # map (Process c ?pid) ns"
    using assms(2) by (intro notify_after_resolve) (simp_all add: a)
  moreover
  have "calls (runJobs (resolve ?p c ?b)) = calls ?b @ Resolve ?p c # map (Process c ?pid) ns"
    using assms(2) by (intro notify_after_resolve) (simp_all add: b)
  ultimately show ?thesis
    by (simp add: a b)
qed

theorem name_assignments_notify_each_witness:
  "(0::nat) < length (debugSessions (unresolved_session 7 ''child-1'' ''worker'' :: vsworld)) \<and>
   promises (unresolved_session 7 ''child-1'' ''worker'' :: vsworld) ! 0 = Pending [] \<and>
   jobs (unresolved_session 7 ''child-1'' ''worker'' :: vsworld) = [] \<and>
   calls (runJobs (resolve 0 (ChildConnection 7 (Some ''child-1''))
      (fold (set_name 0) [''a'', ''b''] (unresolved_session 7 ''child-1'' ''worker'' :: vsworld)))) =
     [Resolve 0 (ChildConnection 7 (Some ''child-1'')),
      Process (ChildConnection 7 (Some ''child-1'')) 1 ''a'',
      Process (ChildConnection 7 (Some ''child-1'')) 1 ''b'']"
  using name_assignments_notify_each [of 0 "unresolved_session 7 ''child-1'' ''worker'' :: vsworld"
      "ChildConnection 7 (Some ''child-1'')" "[''a'', ''b'']"]
  by (simp add: unresolved_session_fields)

text \<open>
  C3, as stated, fails: after two assignments (\<open>''a''\<close>, then \<open>''b''\<close>) to a session whose
  connection promise is pending, resolving the promise does not emit exactly one
  notification carrying \<open>''b''\<close>; two notifications are emitted, in both files.
\<close>

theorem one_notification_counterexample:
  "filter is_Process (calls (runJobs (resolve 0 (ChildConnection 7 (Some ''child-1''))
      (set_name 0 ''b'' (set_name 0 ''a'' (unresolved_session 7 ''child-1'' ''worker'' :: vsworld)))))) \<noteq>
     [Process (ChildConnection 7 (Some ''child-1'')) 1 ''b'']
   \<and>
   length (filter is_Process (calls (runJobs (resolve 0 (ChildConnection 7 (Some ''child-1''))
      (set_name_p0 0 ''b'' (set_name_p0 0 ''a'' (unresolved_session 7 ''child-1'' ''worker'' :: vsworld_p0))))))) = 2"
  by (simp add: calls_runJobs emitted_def unresolved_session_def getDeferred_def new_VSDebugSession_def
      new_world_def set_name_def set_name_p0_def then_promise_def resolve_def Let_def)


text \<open>
  C4. The name of a session is meant to be mutable: the getter is to return what the
  setter was given. The setter of \<^verbatim>\<open>flatSessionLauncher.ts\<close> assigns the field (lemma
  \<open>get_name_set_name\<close>); the setter of \<^verbatim>\<open>part_000\<close> does not (lemma
  \<open>get_name_set_name_p0\<close>). Evaluated on the root session of a fresh manager: after
  \<^verbatim>\<open>session.name = "worker"\<close> the getter of \<^verbatim>\<open>part_000\<close> still returns \<open>''rootSession''\<close>,
  also after the event loop has run, where the getter of \<^verbatim>\<open>flatSessionLauncher.ts\<close>
  returns \<open>''worker''\<close>.
\<close>

theorem set_name_p0_keeps_old_name:
  "get_name 0 (set_name_p0 0 ''worker'' (the_world (VSSessionManager_p0 7))) = ''rootSession'' \<and>
   get_name 0 (runJobs (set_name_p0 0 ''worker'' (the_world (VSSessionManager_p0 7)))) = ''rootSession'' \<and>
   get_name 0 (set_name 0 ''worker'' (the_world (VSSessionManager 7))) = ''worker''"
  by (simp add: get_name_def set_name_p0_fields set_name_fields runJobs_heap
      VSSessionManager_p0_fields VSSessionManager_fields)

text \<open>
  C5. Every assignment to the name of an existing session emits, once the session's
  connection is available, one \<^verbatim>\<open>process\<close> notification through the connection the
  promise is fulfilled with, carrying the session's \<^verbatim>\<open>mockProcessId\<close> and the assigned
  name. If the promise is already fulfilled with \<open>c\<close>, a run of the event loop after the
  assignment makes the calls it would have made without it, followed by the
  notification on \<open>c\<close>. If the promise is pending, the same holds of the run that follows
  its resolution, for whatever connection \<open>c\<close> it is resolved with. Both files.
\<close>

theorem name_assignment_notifies:
  assumes "this < length (debugSessions w)"
    and "childConnection (debugSessions w ! this) < length (promises w)"
  shows
    "(case promises w ! childConnection (debugSessions w ! this) of
        Fulfilled c \<Rightarrow>
          calls (runJobs (set_name this newName w)) =
            calls (runJobs w) @ [Process c (session_mockProcessId (debugSessions w ! this)) newName] \<and>
          calls (runJobs (set_name_p0 this newName w)) =
            calls (runJobs w) @ [Process c (session_mockProcessId (debugSessions w ! this)) newName]
      | Pending cbs \<Rightarrow>
          (\<forall>c.
            calls (runJobs (resolve (childConnection (debugSessions w ! this)) c (set_name this newName w))) =
              calls (runJobs (resolve (childConnection (debugSessions w ! this)) c w)) @
                [Process c (session_mockProcessId (debugSessions w ! this)) newName] \<and>
            calls (runJobs (resolve (childConnection (debugSessions w ! this)) c (set_name_p0 this newName w))) =
              calls (runJobs (resolve (childConnection (debugSessions w ! this)) c w)) @
                [Process c (session_mockProcessId (debugSessions w ! this)) newName]))"
proof (cases "promises w ! childConnection (debugSessions w ! this)")
  case (Fulfilled c)
  then show ?thesis
    using assms(2)
    by (simp add: calls_runJobs set_name_fields set_name_p0_fields set_name_Fulfilled
        set_name_p0_Fulfilled emitted_snoc_GetDap)
next
  case (Pending cbs)
  let ?p = "childConnection (debugSessions w ! this)"
  let ?g = "GetDap (session_mockProcessId (debugSessions w ! this)) newName"
  have a: "promises (set_name this newName w) = (promises w)[?p := Pending (cbs @ [?g])]"
      "jobs (set_name this newName w) = jobs w"
    using assms(2) Pending by (simp_all add: set_name_Pending)
  have b: "promises (set_name_p0 this newName w) = (promises w)[?p := Pending (cbs @ [?g])]"
      "jobs (set_name_p0 this newName w) = jobs w"
    using assms(2) Pending by (simp_all add: set_name_p0_Pending)
  have r: "jobs (resolve ?p c w) = jobs w @ map (\<lambda>cb. (cb, c)) cbs" for c
    using assms(2) Pending by (simp add: resolve_Pending)
  have ra: "jobs (resolve ?p c (set_name this newName w)) =
      (jobs w @ map (\<lambda>cb. (cb, c)) cbs) @ [(?g, c)]" for c
    using assms(2) resolve_Pending [of ?p "set_name this newName w" "cbs @ [?g]" c]
    by (simp add: a)
  have rb: "jobs (resolve ?p c (set_name_p0 this newName w)) =
      (jobs w @ map (\<lambda>cb. (cb, c)) cbs) @ [(?g, c)]" for c
    using assms(2) resolve_Pending [of ?p "set_name_p0 this newName w" "cbs @ [?g]" c]
    by (simp add: b)
  show ?thesis
    unfolding Pending promise.case calls_runJobs ra rb r emitted_snoc_GetDap
    by (simp add: resolve_fields set_name_fields set_name_p0_fields)
qed

theorem name_assignment_notifies_witness:
  "(0::nat) < length (debugSessions (the_world (VSSessionManager 7))) \<and>
   childConnection (debugSessions (the_world (VSSessionManager 7)) ! 0) < length (promises (the_world (VSSessionManager 7))) \<and>
   calls (runJobs (set_name 0 ''main'' (the_world (VSSessionManager 7)))) =
     calls (runJobs (the_world (VSSessionManager 7))) @ [Process (ChildConnection 7 None) 1 ''main''] \<and>
   calls (runJobs (resolve 0 (ChildConnection 7 (Some ''child-1''))
       (set_name 0 ''main'' (unresolved_session 7 ''child-1'' ''worker'' :: vsworld)))) =
     calls (runJobs (resolve 0 (ChildConnection 7 (Some ''child-1''))
       (unresolved_session 7 ''child-1'' ''worker'' :: vsworld))) @
     [Process (ChildConnection 7 (Some ''child-1'')) 1 ''main'']"
  using name_assignment_notifies [of 0 "the_world (VSSessionManager 7)" "''main''"]
    name_assignment_notifies [of 0 "unresolved_session 7 ''child-1'' ''worker'' :: vsworld" "''main''"]
  by (simp add: VSSessionManager_fields unresolved_session_fields)



section \<open>The root session\<close>

text \<open>
  C2, as the code has it. The constructor of the manager returns, and creates exactly
  one session: one session object, one call of \<^verbatim>\<open>createNewSession\<close>, one registry entry,
  one connection, one view registered with the root connection. The session is named
  \<open>''rootSession''\<close> and has the surrogate identifier 1.
  In \<^verbatim>\<open>flatSessionLauncher.ts\<close> its connection strategy and its Child Connection View have
  no session identifier (\<^verbatim>\<open>undefined\<close>), and the session object's \<^verbatim>\<open>id\<close> is the string
  \<open>''root''\<close>. In \<^verbatim>\<open>part_000\<close> the strategy, the view and the session object all have the
  empty string.
\<close>

theorem constructor_creates_one_root_session:
  "(\<exists>w. VSSessionManager r = Inr w)
   \<and> debugSessions (the_world (VSSessionManager r)) =
     [\<lparr>session_id = ''root'', session_name = ''rootSession'', childConnection = 0,
       session_mockProcessId = 1\<rparr>]
   \<and> filter is_CreateNewSession (calls (the_world (VSSessionManager r))) =
     [CreateNewSession 0 Map.empty \<lparr>strategy_rootConnection = r, strategy_sessionId = None\<rparr>]
   \<and> promises (the_world (VSSessionManager r)) = [Fulfilled (ChildConnection r None)]
   \<and> sessions (the_world (VSSessionManager r)) =
     [''root'' \<mapsto> \<lparr>debugSession = 0, connection = ChildConnection r None\<rparr>]
   \<and> children (the_world (VSSessionManager r)) = [[] \<mapsto> ChildConnection r None]
   \<and> (\<exists>v. VSSessionManager_p0 r = Inr v)
   \<and> debugSessions (the_world (VSSessionManager_p0 r)) =
     [\<lparr>session_id = [], session_name = ''rootSession'', childConnection = 0,
       session_mockProcessId = 1\<rparr>]
   \<and> filter is_CreateNewSession (calls (the_world (VSSessionManager_p0 r))) =
     [CreateNewSession 0 Map.empty
        \<lparr>strategy_rootConnection_p0 = r, strategy_sessionId_p0 = Some [],
         deferredChildConnection = 0\<rparr>]
   \<and> promises (the_world (VSSessionManager_p0 r)) = [Fulfilled (ChildConnection r (Some []))]
   \<and> sessions (the_world (VSSessionManager_p0 r)) = [[] \<mapsto> \<lparr>debugSession = 0, connection = 0\<rparr>]
   \<and> children (the_world (VSSessionManager_p0 r)) = [[] \<mapsto> ChildConnection r (Some [])]"
  by (simp add: VSSessionManager_fields VSSessionManager_p0_fields) (simp add: VSSessionManager_eq)

text \<open>
  C2, as stated, fails in \<^verbatim>\<open>flatSessionLauncher.ts\<close>: the identifier of the root session
  object is \<open>''root''\<close> (\<^verbatim>\<open>sessionId || 'root'\<close>), a non-empty string.
\<close>

theorem root_session_id_counterexample:
  "session_id (debugSessions (the_world (VSSessionManager 7)) ! 0) = ''root'' \<and>
   session_id (debugSessions (the_world (VSSessionManager 7)) ! 0) \<noteq> []"
  by (simp add: VSSessionManager_fields)


section \<open>The launcher callback\<close>

text \<open>
  C6. For every child launch, the configuration passed to \<^verbatim>\<open>createSession\<close> and the one
  announced in the \<^verbatim>\<open>attachedChildSession\<close> message are the same: the parent configuration
  with the field \<^verbatim>\<open>sessionId\<close> set to the target's identifier (a previous value of the
  field is overridden, every other field is kept). The calls of a launch that returns
  carry this configuration twice: to \<^verbatim>\<open>createNewSession\<close> and in the message; the calls
  of a launch that throws carry it once, to \<^verbatim>\<open>createNewSession\<close>, and announce nothing.
  In \<^verbatim>\<open>part_000\<close> the message is sent by the job on the parent's connection promise.
\<close>

theorem launcher_merges_config:
  "buildVSSessionLauncher parentSession tgt cfg w =
     (case createSession (Some (target_id tgt)) (target_name tgt)
             (cfg(''sessionId'' \<mapsto> JString (target_id tgt))) w of
        Inl (e, w1) \<Rightarrow> Inl (e, w1)
      | Inr w1 \<Rightarrow>
          Inr (conn_send (connection parentSession)
                 (attachedChildSession (cfg(''sessionId'' \<mapsto> JString (target_id tgt)))) w1))
   \<and> (case buildVSSessionLauncher parentSession tgt cfg w of
        Inr w' \<Rightarrow>
          List.map_filter call_config (drop (length (calls w)) (calls w')) =
            [cfg(''sessionId'' \<mapsto> JString (target_id tgt)),
             cfg(''sessionId'' \<mapsto> JString (target_id tgt))]
      | Inl (e, w') \<Rightarrow>
          List.map_filter call_config (drop (length (calls w)) (calls w')) =
            [cfg(''sessionId'' \<mapsto> JString (target_id tgt))])
   \<and> buildVSSessionLauncher_p0 parent' tgt cfg v =
     (case createSession_p0 (target_id tgt) (target_name tgt)
             (cfg(''sessionId'' \<mapsto> JString (target_id tgt))) v of
        Inl (e, v1) \<Rightarrow> Inl (e, v1)
      | Inr v1 \<Rightarrow>
          Inr (then_promise (connection parent')
                 (SendMessage (attachedChildSession (cfg(''sessionId'' \<mapsto> JString (target_id tgt)))))
                 v1))
   \<and> (connection parent' < length (promises v) \<and>
        promises v ! connection parent' = Fulfilled c \<and> jobs v = [] \<longrightarrow>
        (case buildVSSessionLauncher_p0 parent' tgt cfg v of
           Inr v' \<Rightarrow>
             List.map_filter call_config (drop (length (calls v)) (calls (runJobs v'))) =
               [cfg(''sessionId'' \<mapsto> JString (target_id tgt)),
                cfg(''sessionId'' \<mapsto> JString (target_id tgt))]
         | Inl (e, v') \<Rightarrow>
             List.map_filter call_config (drop (length (calls v)) (calls (runJobs v'))) =
               [cfg(''sessionId'' \<mapsto> JString (target_id tgt))]))"
proof -
  have a: "case buildVSSessionLauncher parentSession tgt cfg w of
        Inr w' \<Rightarrow>
          List.map_filter call_config (drop (length (calls w)) (calls w')) =
            [cfg(''sessionId'' \<mapsto> JString (target_id tgt)),
             cfg(''sessionId'' \<mapsto> JString (target_id tgt))]
      | Inl (e, w') \<Rightarrow>
          List.map_filter call_config (drop (length (calls w)) (calls w')) =
            [cfg(''sessionId'' \<mapsto> JString (target_id tgt))]"
  proof (cases "fresh (Some (target_id tgt)) w")
    case True
    then show ?thesis
      by (simp add: launcher_eq conn_send_def createSession_fresh attachedChildSession_def)
  next
    case False
    then show ?thesis
      by (simp add: launcher_eq createSession_stale)
  qed
  have b: "case buildVSSessionLauncher_p0 parent' tgt cfg v of
           Inr v' \<Rightarrow>
             List.map_filter call_config (drop (length (calls v)) (calls (runJobs v'))) =
               [cfg(''sessionId'' \<mapsto> JString (target_id tgt)),
                cfg(''sessionId'' \<mapsto> JString (target_id tgt))]
         | Inl (e, v') \<Rightarrow>
             List.map_filter call_config (drop (length (calls v)) (calls (runJobs v'))) =
               [cfg(''sessionId'' \<mapsto> JString (target_id tgt))]"
    if h: "connection parent' < length (promises v)" "promises v ! connection parent' = Fulfilled c"
      "jobs v = []"
  proof (cases "fresh_p0 (target_id tgt) v")
    case True
    have "buildVSSessionLauncher_p0 parent' tgt cfg v =
        Inr (the_world (buildVSSessionLauncher_p0 parent' tgt cfg v))"
      by (simp add: launcher_p0_eq True)
    then show ?thesis
      using launcher_p0_fresh(1) [OF True, of parent' cfg]
        launcher_p0_fresh_jobs(1) [OF True h(1,2), of cfg]
      by (simp add: returns_case calls_runJobs emitted_def h(3) attachedChildSession_def)
  next
    case False
    have "buildVSSessionLauncher_p0 parent' tgt cfg v =
        Inl (DuplicateRegistration (target_id tgt),
             the_world (buildVSSessionLauncher_p0 parent' tgt cfg v))"
      by (simp add: launcher_p0_eq False)
    then show ?thesis
      using launcher_p0_stale(1,3) [OF False, of parent' cfg]
      by (simp add: throws_case calls_runJobs h(3))
  qed
  show ?thesis
    using a b by (simp add: buildVSSessionLauncher_def buildVSSessionLauncher_p0_def Let_def)
qed

theorem launcher_merges_config_witness:
  "(0::nat) < length (promises (the_world (VSSessionManager_p0 7))) \<and>
   promises (the_world (VSSessionManager_p0 7)) ! 0 = Fulfilled (ChildConnection 7 (Some [])) \<and>
   jobs (the_world (VSSessionManager_p0 7)) = [] \<and>
   (\<exists>v'. buildVSSessionLauncher_p0 \<lparr>debugSession = 0, connection = 0\<rparr>
        \<lparr>target_id = ''child-1'', target_name = ''worker''\<rparr>
        [''sessionId'' \<mapsto> JString ''stale'', ''type'' \<mapsto> JString ''pwa-node'']
        (the_world (VSSessionManager_p0 7)) = Inr v') \<and>
   List.map_filter call_config
     (drop (length (calls (the_world (VSSessionManager_p0 7))))
       (calls (runJobs (the_world (buildVSSessionLauncher_p0 \<lparr>debugSession = 0, connection = 0\<rparr>
        \<lparr>target_id = ''child-1'', target_name = ''worker''\<rparr>
        [''sessionId'' \<mapsto> JString ''stale'', ''type'' \<mapsto> JString ''pwa-node'']
        (the_world (VSSessionManager_p0 7))))))) =
     [[''sessionId'' \<mapsto> JString ''child-1'', ''type'' \<mapsto> JString ''pwa-node''],
      [''sessionId'' \<mapsto> JString ''child-1'', ''type'' \<mapsto> JString ''pwa-node'']]"
proof -
  let ?v = "the_world (VSSessionManager_p0 7)"
  let ?cfg = "[''sessionId'' \<mapsto> JString ''stale'', ''type'' \<mapsto> JString ''pwa-node'']"
  let ?child = "\<lparr>target_id = ''child-1'', target_name = ''worker''\<rparr>"
  let ?root = "\<lparr>debugSession = 0, connection = 0::nat\<rparr>"
  have h: "(0::nat) < length (promises ?v) \<and>
      promises ?v ! 0 = Fulfilled (ChildConnection 7 (Some [])) \<and> jobs ?v = []"
    by (simp add: VSSessionManager_p0_fields)
  have m: "[''sessionId'' \<mapsto> JString ''stale'', ''type'' \<mapsto> JString ''pwa-node'', ''sessionId'' \<mapsto> JString ''child-1''] =
      [''sessionId'' \<mapsto> JString ''child-1'', ''type'' \<mapsto> JString ''pwa-node'']"
    by (rule ext) simp
  have r: "buildVSSessionLauncher_p0 ?root ?child ?cfg ?v =
      Inr (the_world (buildVSSessionLauncher_p0 ?root ?child ?cfg ?v))"
    using fresh_child(2) by (simp add: launcher_p0_eq)
  note t = launcher_merges_config [where parent' = ?root and tgt = ?child and cfg = ?cfg
      and v = ?v and c = "ChildConnection 7 (Some [])"
      and parentSession = "\<lparr>debugSession = 0, connection = ChildConnection 7 None\<rparr>"
      and w = "the_world (VSSessionManager 7)"]
  from h t [THEN conjunct2, THEN conjunct2, THEN conjunct2]
  have "case buildVSSessionLauncher_p0 ?root ?child ?cfg ?v of
      Inr v' \<Rightarrow>
        List.map_filter call_config (drop (length (calls ?v)) (calls (runJobs v'))) =
          [?cfg(''sessionId'' \<mapsto> JString (target_id ?child)),
           ?cfg(''sessionId'' \<mapsto> JString (target_id ?child))]
    | Inl (e, v') \<Rightarrow>
        List.map_filter call_config (drop (length (calls ?v)) (calls (runJobs v'))) =
          [?cfg(''sessionId'' \<mapsto> JString (target_id ?child))]"
    by simp
  then have "List.map_filter call_config (drop (length (calls ?v))
      (calls (runJobs (the_world (buildVSSessionLauncher_p0 ?root ?child ?cfg ?v))))) =
          [?cfg(''sessionId'' \<mapsto> JString (target_id ?child)),
           ?cfg(''sessionId'' \<mapsto> JString (target_id ?child))]"
    by (simp only: returns_case [OF r])
  then show ?thesis
    using h r by (auto simp: m)
qed


text \<open>
  C8. In the launcher callback the child session is created before the
  \<^verbatim>\<open>attachedChildSession\<close> message is sent. In \<^verbatim>\<open>flatSessionLauncher.ts\<close> the calls of a
  launch that returns are, in this order: \<^verbatim>\<open>createNewSession\<close> for the child's session
  object, the resolution of the child's handle, the message on the parent's
  connection. In \<^verbatim>\<open>part_000\<close> the callback makes the first two calls and sends nothing;
  the message follows when the event loop runs the job on the parent's connection
  promise. A launch that throws has called \<^verbatim>\<open>createNewSession\<close> and sends no message.
\<close>

theorem launcher_creates_before_it_announces:
  "(case buildVSSessionLauncher parentSession tgt cfg w of
      Inr w' \<Rightarrow>
        calls w' =
          calls w @
          [CreateNewSession (length (debugSessions w)) (cfg(''sessionId'' \<mapsto> JString (target_id tgt)))
             \<lparr>strategy_rootConnection = rootConnection w, strategy_sessionId = Some (target_id tgt)\<rparr>,
           Resolve (length (promises w)) (ChildConnection (rootConnection w) (Some (target_id tgt))),
           Send (connection parentSession)
             (attachedChildSession (cfg(''sessionId'' \<mapsto> JString (target_id tgt))))]
    | Inl (e, w') \<Rightarrow>
        calls w' =
          calls w @
          [CreateNewSession (length (debugSessions w)) (cfg(''sessionId'' \<mapsto> JString (target_id tgt)))
             \<lparr>strategy_rootConnection = rootConnection w, strategy_sessionId = Some (target_id tgt)\<rparr>])
   \<and> session_name (debugSessions (the_world (buildVSSessionLauncher parentSession tgt cfg w)) !
        length (debugSessions w)) = target_name tgt
   \<and> (case buildVSSessionLauncher_p0 parent' tgt cfg v of
        Inr v' \<Rightarrow>
          calls v' =
            calls v @
            [CreateNewSession (length (debugSessions v)) (cfg(''sessionId'' \<mapsto> JString (target_id tgt)))
               \<lparr>strategy_rootConnection_p0 = rootConnection v,
                strategy_sessionId_p0 = Some (target_id tgt),
                deferredChildConnection = length (promises v)\<rparr>,
             Resolve (length (promises v)) (ChildConnection (rootConnection v) (Some (target_id tgt)))] \<and>
          (connection parent' < length (promises v) \<and>
           promises v ! connection parent' = Fulfilled c \<and> jobs v = [] \<longrightarrow>
             calls (runJobs v') =
               calls v' @
               [Send c (attachedChildSession (cfg(''sessionId'' \<mapsto> JString (target_id tgt))))])
      | Inl (e, v') \<Rightarrow>
          calls v' =
            calls v @
            [CreateNewSession (length (debugSessions v)) (cfg(''sessionId'' \<mapsto> JString (target_id tgt)))
               \<lparr>strategy_rootConnection_p0 = rootConnection v,
                strategy_sessionId_p0 = Some (target_id tgt),
                deferredChildConnection = length (promises v)\<rparr>])
   \<and> session_name (debugSessions (the_world (buildVSSessionLauncher_p0 parent' tgt cfg v)) !
        length (debugSessions v)) = target_name tgt"
proof -
  have a: "case buildVSSessionLauncher parentSession tgt cfg w of
      Inr w' \<Rightarrow>
        calls w' =
          calls w @
          [CreateNewSession (length (debugSessions w)) (cfg(''sessionId'' \<mapsto> JString (target_id tgt)))
             \<lparr>strategy_rootConnection = rootConnection w, strategy_sessionId = Some (target_id tgt)\<rparr>,
           Resolve (length (promises w)) (ChildConnection (rootConnection w) (Some (target_id tgt))),
           Send (connection parentSession)
             (attachedChildSession (cfg(''sessionId'' \<mapsto> JString (target_id tgt))))]
    | Inl (e, w') \<Rightarrow>
        calls w' =
          calls w @
          [CreateNewSession (length (debugSessions w)) (cfg(''sessionId'' \<mapsto> JString (target_id tgt)))
             \<lparr>strategy_rootConnection = rootConnection w, strategy_sessionId = Some (target_id tgt)\<rparr>]"
  proof (cases "fresh (Some (target_id tgt)) w")
    case True
    then show ?thesis
      by (simp add: launcher_eq conn_send_def createSession_fresh)
  next
    case False
    then show ?thesis
      by (simp add: launcher_eq createSession_stale)
  qed
  have b: "case buildVSSessionLauncher_p0 parent' tgt cfg v of
        Inr v' \<Rightarrow>
          calls v' =
            calls v @
            [CreateNewSession (length (debugSessions v)) (cfg(''sessionId'' \<mapsto> JString (target_id tgt)))
               \<lparr>strategy_rootConnection_p0 = rootConnection v,
                strategy_sessionId_p0 = Some (target_id tgt),
                deferredChildConnection = length (promises v)\<rparr>,
             Resolve (length (promises v)) (ChildConnection (rootConnection v) (Some (target_id tgt)))] \<and>
          (connection parent' < length (promises v) \<and>
           promises v ! connection parent' = Fulfilled c \<and> jobs v = [] \<longrightarrow>
             calls (runJobs v') =
               calls v' @
               [Send c (attachedChildSession (cfg(''sessionId'' \<mapsto> JString (target_id tgt))))])
      | Inl (e, v') \<Rightarrow>
          calls v' =
            calls v @
            [CreateNewSession (length (debugSessions v)) (cfg(''sessionId'' \<mapsto> JString (target_id tgt)))
               \<lparr>strategy_rootConnection_p0 = rootConnection v,
                strategy_sessionId_p0 = Some (target_id tgt),
                deferredChildConnection = length (promises v)\<rparr>]"
  proof (cases "fresh_p0 (target_id tgt) v")
    case True
    have r: "buildVSSessionLauncher_p0 parent' tgt cfg v =
        Inr (the_world (buildVSSessionLauncher_p0 parent' tgt cfg v))"
      by (simp add: launcher_p0_eq True)
    have "calls (runJobs (the_world (buildVSSessionLauncher_p0 parent' tgt cfg v))) =
        calls (the_world (buildVSSessionLauncher_p0 parent' tgt cfg v)) @
        [Send c (attachedChildSession (cfg(''sessionId'' \<mapsto> JString (target_id tgt))))]"
      if "connection parent' < length (promises v)" "promises v ! connection parent' = Fulfilled c"
        "jobs v = []"
      using launcher_p0_fresh_jobs(1) [OF True that(1,2), of cfg]
      by (simp add: calls_runJobs emitted_def that(3))
    then show ?thesis
      using launcher_p0_fresh(1) [OF True, of parent' cfg]
      by (simp add: returns_case [OF r])
  next
    case False
    have r: "buildVSSessionLauncher_p0 parent' tgt cfg v =
        Inl (DuplicateRegistration (target_id tgt),
             the_world (buildVSSessionLauncher_p0 parent' tgt cfg v))"
      by (simp add: launcher_p0_eq False)
    show ?thesis
      using launcher_p0_stale(1) [OF False, of parent' cfg]
      by (simp add: throws_case [OF r])
  qed
  show ?thesis
    using a b by (simp add: launcher_always launcher_p0_always)
qed

theorem launcher_creates_before_it_announces_witness:
  "(0::nat) < length (promises (the_world (VSSessionManager_p0 7))) \<and>
   promises (the_world (VSSessionManager_p0 7)) ! 0 = Fulfilled (ChildConnection 7 (Some [])) \<and>
   jobs (the_world (VSSessionManager_p0 7)) = [] \<and>
   buildVSSessionLauncher_p0 \<lparr>debugSession = 0, connection = 0\<rparr>
        \<lparr>target_id = ''child-1'', target_name = ''worker''\<rparr> Map.empty
        (the_world (VSSessionManager_p0 7)) = Inr manager_with_child_p0 \<and>
   drop (length (calls (the_world (VSSessionManager_p0 7)))) (calls (runJobs manager_with_child_p0)) =
     [CreateNewSession 1 [''sessionId'' \<mapsto> JString ''child-1'']
        \<lparr>strategy_rootConnection_p0 = 7, strategy_sessionId_p0 = Some ''child-1'',
         deferredChildConnection = 1\<rparr>,
      Resolve 1 (ChildConnection 7 (Some ''child-1'')),
      Send (ChildConnection 7 (Some []))
        (attachedChildSession [''sessionId'' \<mapsto> JString ''child-1''])]"
proof -
  let ?v = "the_world (VSSessionManager_p0 7)"
  let ?child = "\<lparr>target_id = ''child-1'', target_name = ''worker''\<rparr>"
  let ?root = "\<lparr>debugSession = 0, connection = 0::nat\<rparr>"
  have h: "(0::nat) < length (promises ?v) \<and>
      promises ?v ! 0 = Fulfilled (ChildConnection 7 (Some [])) \<and> jobs ?v = []"
    by (simp add: VSSessionManager_p0_fields)
  have r: "buildVSSessionLauncher_p0 ?root ?child Map.empty ?v = Inr manager_with_child_p0"
    using fresh_child(2) by (simp add: launcher_p0_eq manager_with_child_p0_def)
  note t = launcher_creates_before_it_announces [where parent' = ?root and tgt = ?child
      and cfg = Map.empty and v = ?v and c = "ChildConnection 7 (Some [])"
      and parentSession = "\<lparr>debugSession = 0, connection = ChildConnection 7 None\<rparr>"
      and w = "the_world (VSSessionManager 7)"]
  from h t [THEN conjunct2, THEN conjunct2, THEN conjunct1]
  show ?thesis
    using h by (simp add: r VSSessionManager_p0_fields)
qed


section \<open>The Deferred Connection Handle\<close>

lemma createSession_last_step:
  assumes "fresh sessionId w"
  shows "\<exists>w3. the_world (createSession sessionId n cfg w) =
          resolve (length (promises w)) (ChildConnection (rootConnection w) sessionId) w3 \<and>
        promises w3 = promises w @ [Pending []] \<and>
        debugSessions w3 = debugSessions w @
          [\<lparr>session_id = or_root sessionId, session_name = n,
            childConnection = length (promises w), session_mockProcessId = mockProcessId w\<rparr>] \<and>
        calls w3 = calls w @
          [CreateNewSession (length (debugSessions w)) cfg
             \<lparr>strategy_rootConnection = rootConnection w, strategy_sessionId = sessionId\<rparr>]"
proof -
  let ?w3 = "w\<lparr>promises := promises w @ [Pending []],
      mockProcessId := js_increment (mockProcessId w),
      debugSessions := debugSessions w @
          [\<lparr>session_id = or_root sessionId, session_name = n,
            childConnection = length (promises w), session_mockProcessId = mockProcessId w\<rparr>],
      calls := calls w @
          [CreateNewSession (length (debugSessions w)) cfg
             \<lparr>strategy_rootConnection = rootConnection w, strategy_sessionId = sessionId\<rparr>],
      children := (children w)(identifier_of sessionId \<mapsto> ChildConnection (rootConnection w) sessionId),
      sessions := (sessions w)(or_root sessionId \<mapsto>
        \<lparr>debugSession = length (debugSessions w),
         connection = ChildConnection (rootConnection w) sessionId\<rparr>)\<rparr>"
  have "the_world (createSession sessionId n cfg w) =
      resolve (length (promises w)) (ChildConnection (rootConnection w) sessionId) ?w3"
    using assms
    by (simp add: createSession_def buildConnectionStrategy_def getDeferred_def
        new_VSDebugSession_def createNewSession_def getConnection_def new_ChildConnection_def
        Let_def fresh_def)
  then show ?thesis
    by (intro exI [of _ ?w3]) simp
qed

lemma createSession_p0_last_step:
  assumes "fresh_p0 sessionId v"
  shows "\<exists>v3. the_world (createSession_p0 sessionId n cfg v) =
          (resolve (length (promises v)) (ChildConnection (rootConnection v) (Some sessionId)) v3)
            \<lparr>sessions := (sessions v3)(sessionId \<mapsto>
               \<lparr>debugSession = length (debugSessions v), connection = length (promises v)\<rparr>)\<rparr> \<and>
        promises v3 = promises v @ [Pending []] \<and>
        debugSessions v3 = debugSessions v @
          [\<lparr>session_id = sessionId, session_name = n,
            childConnection = length (promises v), session_mockProcessId = mockProcessId v\<rparr>] \<and>
        calls v3 = calls v @
          [CreateNewSession (length (debugSessions v)) cfg
             \<lparr>strategy_rootConnection_p0 = rootConnection v,
              strategy_sessionId_p0 = Some sessionId,
              deferredChildConnection = length (promises v)\<rparr>]"
proof -
  let ?v3 = "v\<lparr>promises := promises v @ [Pending []],
      mockProcessId := js_increment (mockProcessId v),
      debugSessions := debugSessions v @
          [\<lparr>session_id = sessionId, session_name = n,
            childConnection = length (promises v), session_mockProcessId = mockProcessId v\<rparr>],
      calls := calls v @
          [CreateNewSession (length (debugSessions v)) cfg
             \<lparr>strategy_rootConnection_p0 = rootConnection v,
              strategy_sessionId_p0 = Some sessionId,
              deferredChildConnection = length (promises v)\<rparr>],
      children := (children v)(sessionId \<mapsto> ChildConnection (rootConnection v) (Some sessionId))\<rparr>"
  have "the_world (createSession_p0 sessionId n cfg v) =
      (resolve (length (promises v)) (ChildConnection (rootConnection v) (Some sessionId)) ?v3)
        \<lparr>sessions := (sessions ?v3)(sessionId \<mapsto>
           \<lparr>debugSession = length (debugSessions v), connection = length (promises v)\<rparr>)\<rparr>"
    using assms
    by (simp add: createSession_p0_def buildConnectionStrategy_p0_def new_VSConnectionStrategy_p0_def
        getDeferred_def new_VSDebugSession_def createNewSession_p0_def init_p0_def
        getConnection_p0_def new_ChildConnection_def identifier_of_def resolve_fields Let_def
        fresh_p0_def)
  then show ?thesis
    by (intro exI [of _ ?v3]) simp
qed

lemma resolve_again:
  "p < length (promises w) \<Longrightarrow> promises w ! p = Fulfilled c \<Longrightarrow>
   promises (resolve p c' w) = promises w \<and> jobs (resolve p c' w) = jobs w"
  by (simp add: resolve_def Let_def)

lemma init_p0_once:
  "case init_p0 strat v of
     Inr v' \<Rightarrow>
       calls v' =
         calls v @
         [Resolve (deferredChildConnection strat)
            (ChildConnection (strategy_rootConnection_p0 strat) (strategy_sessionId_p0 strat))] \<and>
       isl (init_p0 strat v')
   | Inl (e, v') \<Rightarrow> v' = v"
  by (simp add: init_p0_def new_ChildConnection_def resolve_fields split: option.split)


lemma createSession_handle:
  "(case createSession sessionId n cfg w of
      Inr w' \<Rightarrow>
        (\<exists>w3. w' = resolve (length (promises w)) (ChildConnection (rootConnection w) sessionId) w3 \<and>
           promises w3 = promises w @ [Pending []] \<and>
           debugSessions w3 = debugSessions w @
             [\<lparr>session_id = or_root sessionId, session_name = n,
               childConnection = length (promises w), session_mockProcessId = mockProcessId w\<rparr>] \<and>
           calls w3 = calls w @
             [CreateNewSession (length (debugSessions w)) cfg
                \<lparr>strategy_rootConnection = rootConnection w, strategy_sessionId = sessionId\<rparr>]) \<and>
        calls w' =
          calls w @
          [CreateNewSession (length (debugSessions w)) cfg
             \<lparr>strategy_rootConnection = rootConnection w, strategy_sessionId = sessionId\<rparr>,
           Resolve (length (promises w)) (ChildConnection (rootConnection w) sessionId)] \<and>
        promises w' = promises w @ [Fulfilled (ChildConnection (rootConnection w) sessionId)] \<and>
        sessions w' (or_root sessionId) =
          Some \<lparr>debugSession = length (debugSessions w),
                connection = ChildConnection (rootConnection w) sessionId\<rparr> \<and>
        (\<forall>c'. promises (resolve (length (promises w)) c' w') = promises w')
    | Inl (e, w') \<Rightarrow>
        calls w' =
          calls w @
          [CreateNewSession (length (debugSessions w)) cfg
             \<lparr>strategy_rootConnection = rootConnection w, strategy_sessionId = sessionId\<rparr>] \<and>
        promises w' = promises w @ [Pending []] \<and>
        sessions w' = sessions w \<and> children w' = children w)"
proof (cases "fresh sessionId w")
  case True
  let ?W = "the_world (createSession sessionId n cfg w)"
  have again: "promises (resolve (length (promises w)) c' ?W) = promises ?W" for c'
    by (simp add: resolve_again [THEN conjunct1] createSession_fresh [OF True])
  show ?thesis
    using createSession_last_step [OF True, of n cfg] again
    by (simp only: returns_case [OF createSession_returns [OF True]]
        createSession_fresh [OF True] fun_upd_same simp_thms)
next
  case False
  show ?thesis
    by (simp add: throws_case [OF createSession_throws [OF False]] createSession_stale [OF False])
qed

lemma createSession_p0_handle:
  "case createSession_p0 sessionId n cfg v of
        Inr v' \<Rightarrow>
          (\<exists>v3. v' =
               (resolve (length (promises v)) (ChildConnection (rootConnection v) (Some sessionId)) v3)
                 \<lparr>sessions := (sessions v3)(sessionId \<mapsto>
                    \<lparr>debugSession = length (debugSessions v), connection = length (promises v)\<rparr>)\<rparr> \<and>
             promises v3 = promises v @ [Pending []] \<and>
             debugSessions v3 = debugSessions v @
               [\<lparr>session_id = sessionId, session_name = n,
                 childConnection = length (promises v), session_mockProcessId = mockProcessId v\<rparr>] \<and>
             calls v3 = calls v @
               [CreateNewSession (length (debugSessions v)) cfg
                  \<lparr>strategy_rootConnection_p0 = rootConnection v,
                   strategy_sessionId_p0 = Some sessionId,
                   deferredChildConnection = length (promises v)\<rparr>]) \<and>
          calls v' =
            calls v @
            [CreateNewSession (length (debugSessions v)) cfg
               \<lparr>strategy_rootConnection_p0 = rootConnection v,
                strategy_sessionId_p0 = Some sessionId,
                deferredChildConnection = length (promises v)\<rparr>,
             Resolve (length (promises v)) (ChildConnection (rootConnection v) (Some sessionId))] \<and>
          promises v' = promises v @ [Fulfilled (ChildConnection (rootConnection v) (Some sessionId))] \<and>
          sessions v' sessionId =
            Some \<lparr>debugSession = length (debugSessions v), connection = length (promises v)\<rparr> \<and>
          (\<forall>c'. promises (resolve (length (promises v)) c' v') = promises v')
      | Inl (e, v') \<Rightarrow>
          calls v' =
            calls v @
            [CreateNewSession (length (debugSessions v)) cfg
               \<lparr>strategy_rootConnection_p0 = rootConnection v,
                strategy_sessionId_p0 = Some sessionId,
                deferredChildConnection = length (promises v)\<rparr>] \<and>
          promises v' = promises v @ [Pending []] \<and>
          sessions v' = sessions v \<and> children v' = children v"
proof (cases "fresh_p0 sessionId v")
  case True
  let ?V = "the_world (createSession_p0 sessionId n cfg v)"
  have again: "promises (resolve (length (promises v)) c' ?V) = promises ?V" for c'
    by (simp add: resolve_again [THEN conjunct1] createSession_p0_fresh [OF True])
  show ?thesis
    using createSession_p0_last_step [OF True, of n cfg] again
    by (simp only: returns_case [OF createSession_p0_returns [OF True]]
        createSession_p0_fresh [OF True] fun_upd_same simp_thms)
next
  case False
  show ?thesis
    by (simp add: throws_case [OF createSession_p0_throws [OF False]]
        createSession_p0_stale [OF False])
qed

lemma createSession_isl:
  "isl (createSession sessionId n cfg w) = (\<not> fresh sessionId w)"
  "isl (createSession_p0 sessionId' n cfg v) = (\<not> fresh_p0 sessionId' v)"
  by (metis createSession_returns createSession_throws sum.disc(1,2))
    (metis createSession_p0_returns createSession_p0_throws sum.disc(1,2))

text \<open>
  C7, as the code has it. Every call of \<^verbatim>\<open>createSession\<close> creates a fresh handle (its
  address is the next free one) and resolves it at most once. A call that returns
  resolves it exactly once: the call ends with the resolution of the handle, in a
  world where the handle is still pending, the session object holding it exists and
  has been handed to \<^verbatim>\<open>createNewSession\<close>; the calls are \<^verbatim>\<open>createNewSession\<close> and then one
  \<^verbatim>\<open>resolve\<close>; the handle ends fulfilled with the Child Connection View built for this
  session, which is the connection of the registered Session; and a later resolution
  with any other connection changes nothing. A call that throws, which it does exactly
  when the identifier is not fresh, leaves the handle pending: it is never resolved,
  and the registry and the views are as before.
  In \<^verbatim>\<open>part_000\<close> the handle lives in the connection strategy and is resolved by the
  strategy's \<^verbatim>\<open>init\<close>, which \<^verbatim>\<open>createSession\<close> leaves to the session manager. One call
  of \<^verbatim>\<open>init\<close> that returns makes one \<^verbatim>\<open>resolve\<close>, with the view built from the strategy's
  root connection and session identifier; a second call of \<^verbatim>\<open>init\<close> throws before it
  resolves, and a call that throws changes nothing.
\<close>

theorem createSession_resolves_handle_once:
  "(case createSession sessionId n cfg w of
      Inr w' \<Rightarrow>
        (\<exists>w3. w' = resolve (length (promises w)) (ChildConnection (rootConnection w) sessionId) w3 \<and>
           promises w3 = promises w @ [Pending []] \<and>
           debugSessions w3 = debugSessions w @
             [\<lparr>session_id = or_root sessionId, session_name = n,
               childConnection = length (promises w), session_mockProcessId = mockProcessId w\<rparr>] \<and>
           calls w3 = calls w @
             [CreateNewSession (length (debugSessions w)) cfg
                \<lparr>strategy_rootConnection = rootConnection w, strategy_sessionId = sessionId\<rparr>]) \<and>
        calls w' =
          calls w @
          [CreateNewSession (length (debugSessions w)) cfg
             \<lparr>strategy_rootConnection = rootConnection w, strategy_sessionId = sessionId\<rparr>,
           Resolve (length (promises w)) (ChildConnection (rootConnection w) sessionId)] \<and>
        promises w' = promises w @ [Fulfilled (ChildConnection (rootConnection w) sessionId)] \<and>
        sessions w' (or_root sessionId) =
          Some \<lparr>debugSession = length (debugSessions w),
                connection = ChildConnection (rootConnection w) sessionId\<rparr> \<and>
        (\<forall>c'. promises (resolve (length (promises w)) c' w') = promises w')
    | Inl (e, w') \<Rightarrow>
        calls w' =
          calls w @
          [CreateNewSession (length (debugSessions w)) cfg
             \<lparr>strategy_rootConnection = rootConnection w, strategy_sessionId = sessionId\<rparr>] \<and>
        promises w' = promises w @ [Pending []] \<and>
        sessions w' = sessions w \<and> children w' = children w)
   \<and> isl (createSession sessionId n cfg w) = (\<not> fresh sessionId w)
   \<and> (case createSession_p0 sessionId' n cfg v of
        Inr v' \<Rightarrow>
          (\<exists>v3. v' =
               (resolve (length (promises v)) (ChildConnection (rootConnection v) (Some sessionId')) v3)
                 \<lparr>sessions := (sessions v3)(sessionId' \<mapsto>
                    \<lparr>debugSession = length (debugSessions v), connection = length (promises v)\<rparr>)\<rparr> \<and>
             promises v3 = promises v @ [Pending []] \<and>
             debugSessions v3 = debugSessions v @
               [\<lparr>session_id = sessionId', session_name = n,
                 childConnection = length (promises v), session_mockProcessId = mockProcessId v\<rparr>] \<and>
             calls v3 = calls v @
               [CreateNewSession (length (debugSessions v)) cfg
                  \<lparr>strategy_rootConnection_p0 = rootConnection v,
                   strategy_sessionId_p0 = Some sessionId',
                   deferredChildConnection = length (promises v)\<rparr>]) \<and>
          calls v' =
            calls v @
            [CreateNewSession (length (debugSessions v)) cfg
               \<lparr>strategy_rootConnection_p0 = rootConnection v,
                strategy_sessionId_p0 = Some sessionId',
                deferredChildConnection = length (promises v)\<rparr>,
             Resolve (length (promises v)) (ChildConnection (rootConnection v) (Some sessionId'))] \<and>
          promises v' = promises v @ [Fulfilled (ChildConnection (rootConnection v) (Some sessionId'))] \<and>
          sessions v' sessionId' =
            Some \<lparr>debugSession = length (debugSessions v), connection = length (promises v)\<rparr> \<and>
          (\<forall>c'. promises (resolve (length (promises v)) c' v') = promises v')
      | Inl (e, v') \<Rightarrow>
          calls v' =
            calls v @
            [CreateNewSession (length (debugSessions v)) cfg
               \<lparr>strategy_rootConnection_p0 = rootConnection v,
                strategy_sessionId_p0 = Some sessionId',
                deferredChildConnection = length (promises v)\<rparr>] \<and>
          promises v' = promises v @ [Pending []] \<and>
          sessions v' = sessions v \<and> children v' = children v)
   \<and> isl (createSession_p0 sessionId' n cfg v) = (\<not> fresh_p0 sessionId' v)
   \<and> (case init_p0 strat u of
        Inr u' \<Rightarrow>
          calls u' =
            calls u @
            [Resolve (deferredChildConnection strat)
               (ChildConnection (strategy_rootConnection_p0 strat) (strategy_sessionId_p0 strat))] \<and>
          isl (init_p0 strat u')
      | Inl (e, u') \<Rightarrow> u' = u)"
  by (intro conjI createSession_handle createSession_p0_handle createSession_isl init_p0_once)


theorem createSession_resolves_handle_once_witness:
  "fresh (Some ''child-1'') (the_world (VSSessionManager 7)) \<and>
   \<not> isl (createSession (Some ''child-1'') ''worker'' Map.empty (the_world (VSSessionManager 7))) \<and>
   drop (length (calls (the_world (VSSessionManager 7))))
     (calls (the_world (createSession (Some ''child-1'') ''worker'' Map.empty
        (the_world (VSSessionManager 7))))) =
     [CreateNewSession 1 Map.empty \<lparr>strategy_rootConnection = 7, strategy_sessionId = Some ''child-1''\<rparr>,
      Resolve 1 (ChildConnection 7 (Some ''child-1''))] \<and>
   promises (the_world (createSession (Some ''child-1'') ''worker'' Map.empty
        (the_world (VSSessionManager 7)))) =
     [Fulfilled (ChildConnection 7 None), Fulfilled (ChildConnection 7 (Some ''child-1''))]"
proof -
  let ?w = "the_world (VSSessionManager 7)"
  let ?r = "createSession (Some ''child-1'') ''worker'' Map.empty ?w"
  have f: "fresh (Some ''child-1'') ?w"
    using fresh_child(1) by simp
  note t = createSession_resolves_handle_once [where sessionId = "Some ''child-1''"
      and n = "''worker''" and cfg = Map.empty and w = ?w]
  from t f have r: "\<not> isl ?r"
    by blast
  then obtain w' where w': "?r = Inr w'"
    by (cases ?r) auto
  from t [THEN conjunct1] have
    "calls w' = calls ?w @
       [CreateNewSession (length (debugSessions ?w)) Map.empty
          \<lparr>strategy_rootConnection = rootConnection ?w, strategy_sessionId = Some ''child-1''\<rparr>,
        Resolve (length (promises ?w)) (ChildConnection (rootConnection ?w) (Some ''child-1''))]"
    "promises w' = promises ?w @ [Fulfilled (ChildConnection (rootConnection ?w) (Some ''child-1''))]"
    by (simp_all add: w')
  then show ?thesis
    using f r by (simp add: w' VSSessionManager_fields)
qed

text \<open>
  C7, as stated, fails for a call that repeats an identifier. In the manager that has
  launched \<open>''child-1''\<close>, \<^verbatim>\<open>createSession\<close> for \<open>''child-1''\<close> throws; the handle it
  created, at address 2, stays pending, and the only call made is \<^verbatim>\<open>createNewSession\<close>.
\<close>

theorem unresolved_handle_counterexample:
  "isl (createSession (Some ''child-1'') ''worker'' Map.empty manager_with_child) \<and>
   promises (the_world (createSession (Some ''child-1'') ''worker'' Map.empty manager_with_child)) =
     [Fulfilled (ChildConnection 7 None), Fulfilled (ChildConnection 7 (Some ''child-1'')),
      Pending []] \<and>
   drop (length (calls manager_with_child))
     (calls (the_world (createSession (Some ''child-1'') ''worker'' Map.empty manager_with_child))) =
     [CreateNewSession 2 Map.empty \<lparr>strategy_rootConnection = 7, strategy_sessionId = Some ''child-1''\<rparr>]"
  by (simp add: createSession_isl createSession_stale [OF manager_with_child_fields(6)]
      manager_with_child_fields)

section \<open>One identifier per child\<close>

text \<open>
  C10. For every child launch the target's identifier is used in all places: as the
  \<^verbatim>\<open>sessionId\<close> field of the merged configuration, as the \<^verbatim>\<open>id\<close> of the child's session
  object, and as the session identifier of the connection strategy; when the launch
  returns, also as the identifier of the Child Connection View the handle is fulfilled
  with, under which the view is registered with the manager's root connection, and as
  the key of the registered Session. The launch does not change the root connection.
  A child has a non-empty identifier (the empty one denotes the root session); for
  \<^verbatim>\<open>flatSessionLauncher.ts\<close> this is a hypothesis, since there the session object's
  \<^verbatim>\<open>id\<close> is \<^verbatim>\<open>sessionId || 'root'\<close>.
\<close>

theorem launcher_uses_one_identifier:
  "(target_id tgt \<noteq> [] \<longrightarrow>
      debugSessions (the_world (buildVSSessionLauncher parentSession tgt cfg w)) =
        debugSessions w @
        [\<lparr>session_id = target_id tgt, session_name = target_name tgt,
          childConnection = length (promises w), session_mockProcessId = mockProcessId w\<rparr>]
      \<and> filter is_CreateNewSession
          (drop (length (calls w)) (calls (the_world (buildVSSessionLauncher parentSession tgt cfg w)))) =
        [CreateNewSession (length (debugSessions w)) (cfg(''sessionId'' \<mapsto> JString (target_id tgt)))
           \<lparr>strategy_rootConnection = rootConnection w, strategy_sessionId = Some (target_id tgt)\<rparr>]
      \<and> rootConnection (the_world (buildVSSessionLauncher parentSession tgt cfg w)) = rootConnection w
      \<and> (case buildVSSessionLauncher parentSession tgt cfg w of
            Inr w' \<Rightarrow>
              promises w' =
                promises w @ [Fulfilled (ChildConnection (rootConnection w) (Some (target_id tgt)))] \<and>
              children w' (target_id tgt) =
                Some (ChildConnection (rootConnection w) (Some (target_id tgt))) \<and>
              sessions w' (target_id tgt) =
                Some \<lparr>debugSession = length (debugSessions w),
                      connection = ChildConnection (rootConnection w) (Some (target_id tgt))\<rparr>
          | Inl (e, w') \<Rightarrow> children w' = children w \<and> sessions w' = sessions w))
   \<and> debugSessions (the_world (buildVSSessionLauncher_p0 parent' tgt cfg v)) =
     debugSessions v @
     [\<lparr>session_id = target_id tgt, session_name = target_name tgt,
       childConnection = length (promises v), session_mockProcessId = mockProcessId v\<rparr>]
   \<and> filter is_CreateNewSession
       (drop (length (calls v)) (calls (the_world (buildVSSessionLauncher_p0 parent' tgt cfg v)))) =
     [CreateNewSession (length (debugSessions v)) (cfg(''sessionId'' \<mapsto> JString (target_id tgt)))
        \<lparr>strategy_rootConnection_p0 = rootConnection v,
         strategy_sessionId_p0 = Some (target_id tgt),
         deferredChildConnection = length (promises v)\<rparr>]
   \<and> rootConnection (the_world (buildVSSessionLauncher_p0 parent' tgt cfg v)) = rootConnection v
   \<and> (case buildVSSessionLauncher_p0 parent' tgt cfg v of
        Inr v' \<Rightarrow>
          promises v' ! length (promises v) =
            Fulfilled (ChildConnection (rootConnection v) (Some (target_id tgt))) \<and>
          children v' (target_id tgt) =
            Some (ChildConnection (rootConnection v) (Some (target_id tgt))) \<and>
          sessions v' (target_id tgt) =
            Some \<lparr>debugSession = length (debugSessions v), connection = length (promises v)\<rparr>
      | Inl (e, v') \<Rightarrow> children v' = children v \<and> sessions v' = sessions v)"
proof -
  have a: "case buildVSSessionLauncher parentSession tgt cfg w of
            Inr w' \<Rightarrow>
              promises w' =
                promises w @ [Fulfilled (ChildConnection (rootConnection w) (Some (target_id tgt)))] \<and>
              children w' (target_id tgt) =
                Some (ChildConnection (rootConnection w) (Some (target_id tgt))) \<and>
              sessions w' (target_id tgt) =
                Some \<lparr>debugSession = length (debugSessions w),
                      connection = ChildConnection (rootConnection w) (Some (target_id tgt))\<rparr>
          | Inl (e, w') \<Rightarrow> children w' = children w \<and> sessions w' = sessions w"
    if "target_id tgt \<noteq> []"
  proof (cases "fresh (Some (target_id tgt)) w")
    case True
    have r: "buildVSSessionLauncher parentSession tgt cfg w =
        Inr (the_world (buildVSSessionLauncher parentSession tgt cfg w))"
      by (simp add: launcher_eq True)
    show ?thesis
      using that
      by (simp add: returns_case [OF r] launcher_fresh [OF True] or_root_def)
  next
    case False
    have r: "buildVSSessionLauncher parentSession tgt cfg w =
        Inl (DuplicateRegistration
               (if sessions w (or_root (Some (target_id tgt))) = None then target_id tgt
                else or_root (Some (target_id tgt))),
             the_world (buildVSSessionLauncher parentSession tgt cfg w))"
      by (simp add: launcher_eq False)
    show ?thesis
      by (simp add: throws_case [OF r] launcher_stale [OF False])
  qed
  have b: "filter is_CreateNewSession
          (drop (length (calls w)) (calls (the_world (buildVSSessionLauncher parentSession tgt cfg w)))) =
        [CreateNewSession (length (debugSessions w)) (cfg(''sessionId'' \<mapsto> JString (target_id tgt)))
           \<lparr>strategy_rootConnection = rootConnection w, strategy_sessionId = Some (target_id tgt)\<rparr>]"
    by (cases "fresh (Some (target_id tgt)) w") (simp_all add: launcher_fresh launcher_stale)
  have c: "case buildVSSessionLauncher_p0 parent' tgt cfg v of
        Inr v' \<Rightarrow>
          promises v' ! length (promises v) =
            Fulfilled (ChildConnection (rootConnection v) (Some (target_id tgt))) \<and>
          children v' (target_id tgt) =
            Some (ChildConnection (rootConnection v) (Some (target_id tgt))) \<and>
          sessions v' (target_id tgt) =
            Some \<lparr>debugSession = length (debugSessions v), connection = length (promises v)\<rparr>
      | Inl (e, v') \<Rightarrow> children v' = children v \<and> sessions v' = sessions v"
  proof (cases "fresh_p0 (target_id tgt) v")
    case True
    have r: "buildVSSessionLauncher_p0 parent' tgt cfg v =
        Inr (the_world (buildVSSessionLauncher_p0 parent' tgt cfg v))"
      by (simp add: launcher_p0_eq True)
    show ?thesis
      by (simp add: returns_case [OF r] launcher_p0_fresh [OF True])
  next
    case False
    have r: "buildVSSessionLauncher_p0 parent' tgt cfg v =
        Inl (DuplicateRegistration (target_id tgt),
             the_world (buildVSSessionLauncher_p0 parent' tgt cfg v))"
      by (simp add: launcher_p0_eq False)
    show ?thesis
      by (simp add: throws_case [OF r] launcher_p0_stale [OF False])
  qed
  have d: "filter is_CreateNewSession
       (drop (length (calls v)) (calls (the_world (buildVSSessionLauncher_p0 parent' tgt cfg v)))) =
     [CreateNewSession (length (debugSessions v)) (cfg(''sessionId'' \<mapsto> JString (target_id tgt)))
        \<lparr>strategy_rootConnection_p0 = rootConnection v,
         strategy_sessionId_p0 = Some (target_id tgt),
         deferredChildConnection = length (promises v)\<rparr>]"
    by (cases "fresh_p0 (target_id tgt) v") (simp_all add: launcher_p0_fresh launcher_p0_stale)
  show ?thesis
    using a c by (simp add: b d launcher_always launcher_p0_always or_root_def)
qed

theorem launcher_uses_one_identifier_witness:
  "target_id \<lparr>target_id = ''child-1'', target_name = ''worker''\<rparr> \<noteq> [] \<and>
   buildVSSessionLauncher \<lparr>debugSession = 0, connection = ChildConnection 7 None\<rparr>
       \<lparr>target_id = ''child-1'', target_name = ''worker''\<rparr> Map.empty
       (the_world (VSSessionManager 7)) = Inr manager_with_child \<and>
   debugSessions manager_with_child =
     [\<lparr>session_id = ''root'', session_name = ''rootSession'', childConnection = 0,
       session_mockProcessId = 1\<rparr>,
      \<lparr>session_id = ''child-1'', session_name = ''worker'', childConnection = 1,
       session_mockProcessId = 2\<rparr>] \<and>
   filter is_CreateNewSession (drop (length (calls (the_world (VSSessionManager 7))))
     (calls manager_with_child)) =
     [CreateNewSession 1 [''sessionId'' \<mapsto> JString ''child-1'']
        \<lparr>strategy_rootConnection = 7, strategy_sessionId = Some ''child-1''\<rparr>] \<and>
   promises manager_with_child =
     [Fulfilled (ChildConnection 7 None), Fulfilled (ChildConnection 7 (Some ''child-1''))] \<and>
   children manager_with_child ''child-1'' = Some (ChildConnection 7 (Some ''child-1''))"
proof -
  let ?w = "the_world (VSSessionManager 7)"
  let ?child = "\<lparr>target_id = ''child-1'', target_name = ''worker''\<rparr>"
  let ?root = "\<lparr>debugSession = 0, connection = ChildConnection 7 None\<rparr>"
  have h: "target_id ?child \<noteq> []"
    by simp
  have r: "buildVSSessionLauncher ?root ?child Map.empty ?w = Inr manager_with_child"
    using fresh_child(1) by (simp add: launcher_eq manager_with_child_def)
  note t = launcher_uses_one_identifier [where tgt = ?child and parentSession = ?root
      and cfg = Map.empty and w = ?w]
  from h t [THEN conjunct1]
  show ?thesis
    by (simp add: r VSSessionManager_fields)
qed

end
